theory Spec2Isabelle
  imports Main
begin

section \<open>Errors\<close>

text \<open>
  The gRPC status codes that the node service returns, and the ways a call can end
  without a response: a status error, a plain Go error value, the API server's NotFound
  error (which \<open>StoreRequestDetails\<close> tells apart with \<open>apierrors.IsNotFound\<close>), and
  a run-time panic (a nil dereference).
\<close>

datatype codes = InvalidArgument | NotFound | AlreadyExists | FailedPrecondition | Internal

datatype error = Status codes | GoError | ApiNotFound | Panic

section \<open>convertUUID (pkg/csi/service/node.go)\<close>

text \<open>A Go string is a sequence of bytes; \<open>s[a:b]\<close> is the bytes from index a up to b.\<close>

definition slice :: "string \<Rightarrow> nat \<Rightarrow> nat \<Rightarrow> string" where
  "slice s a b = take (b - a) (drop a s)"

definition isASCII :: "char \<Rightarrow> bool" where
  "isASCII c = ((of_char c :: nat) < 128)"

definition lowerASCII :: "char \<Rightarrow> char" where
  "lowerASCII c =
     (let n = (of_char c :: nat) in if 65 \<le> n \<and> n \<le> 90 then char_of (n + 32) else c)"

text \<open>
  \<open>strings.ToLower\<close> of the Go standard library: on a string of ASCII bytes it maps
  A..Z to a..z byte by byte; on any other string it maps Unicode code points, which is
  the parameter \<open>unicodeLower\<close> here.
\<close>

definition ToLower :: "(string \<Rightarrow> string) \<Rightarrow> string \<Rightarrow> string" where
  "ToLower unicodeLower s = (if list_all isASCII s then map lowerASCII s else unicodeLower s)"

definition convertUUID :: "(string \<Rightarrow> string) \<Rightarrow> string \<Rightarrow> error + string" where
  "convertUUID unicodeLower uuid =
     (if length uuid \<noteq> 36 then Inl GoError
      else
        let convertedUUID =
              slice uuid 6 8 @ slice uuid 4 6 @ slice uuid 2 4 @ slice uuid 0 2 @ ''-'' @
              slice uuid 11 13 @ slice uuid 9 11 @ ''-'' @
              slice uuid 16 18 @ slice uuid 14 16 @ ''-'' @
              slice uuid 19 23 @ ''-'' @
              slice uuid 24 36
        in Inr (ToLower unicodeLower convertedUUID))"

text \<open>
  The specification's words: a group of hexadecimal digits is a sequence of bytes of two
  digits each, and to byte-swap it is to reverse the order of the bytes.
\<close>

fun hexBytes :: "string \<Rightarrow> string list" where
  "hexBytes (a # b # rest) = [a, b] # hexBytes rest"
| "hexBytes rest = [rest]"

definition byteSwap :: "string \<Rightarrow> string" where
  "byteSwap g = concat (rev (hexBytes g))"

section \<open>The idempotent operation ledger (cnsvolumeoperationrequest)\<close>

record OperationDetails =
  TaskInvocationTimestamp :: int
  TaskID :: string
  OpID :: string
  TaskStatus :: string
  Error :: string

text \<open>
  \<open>VolumeOperationRequestDetails\<close>: what callers store and receive. Its
  \<open>OperationDetails\<close> field is a pointer in the source, so it may be nil.
\<close>

record VolumeOperationRequestDetails =
  Name :: string
  VolumeID :: string
  SnapshotID :: string
  Capacity :: int
  OperationDetails :: "OperationDetails option"

text \<open>
  The persisted object \<open>CnsVolumeOperationRequest\<close>, with \<open>Spec.Name\<close> and the fields
  of \<open>Status\<close> side by side.
\<close>

record CnsVolumeOperationRequest =
  SpecName :: string
  StatusVolumeID :: string
  StatusSnapshotID :: string
  StatusCapacity :: int
  FirstOperationDetails :: OperationDetails
  LatestOperationDetails :: "OperationDetails list"

text \<open>
  Modelled from the spec: the constant \<open>maxEntriesInLatestOperationDetails\<close> is declared
  outside the source files at hand; the specification gives the bound of the list as 10.
\<close>

definition maxEntriesInLatestOperationDetails :: nat where
  "maxEntriesInLatestOperationDetails = 10"

text \<open>
  Modelled from the spec: \<open>CreateVolumeOperationRequestDetails\<close> and
  \<open>convertToCnsVolumeOperationRequestDetails\<close> are declared outside the source files at
  hand. The first builds the caller's view from the name, the volume and snapshot
  identifiers, the capacity and the fields of one operation; the second copies the
  fields of an operation into the persisted representation.
\<close>

definition CreateVolumeOperationRequestDetails ::
  "string \<Rightarrow> string \<Rightarrow> string \<Rightarrow> int \<Rightarrow> int \<Rightarrow> string \<Rightarrow> string \<Rightarrow> string \<Rightarrow> string
     \<Rightarrow> VolumeOperationRequestDetails" where
  "CreateVolumeOperationRequestDetails name volumeID snapshotID capacity ts taskID opID
       taskStatus err =
     \<lparr>Name = name, VolumeID = volumeID, SnapshotID = snapshotID, Capacity = capacity,
      OperationDetails = Some \<lparr>TaskInvocationTimestamp = ts, TaskID = taskID, OpID = opID,
                                TaskStatus = taskStatus, Error = err\<rparr>\<rparr>"

definition convertToCnsVolumeOperationRequestDetails :: "OperationDetails \<Rightarrow> OperationDetails" where
  "convertToCnsVolumeOperationRequestDetails details =
     \<lparr>TaskInvocationTimestamp = TaskInvocationTimestamp details, TaskID = TaskID details,
      OpID = OpID details, TaskStatus = TaskStatus details, Error = Error details\<rparr>"

text \<open>
  The client to the API server: the stored objects by name (the namespace is fixed), and
  for each kind of request whether the server refuses it for a reason of its own
  (unreachable, conflict on update, ...).
\<close>

record k8sclient =
  objects :: "string \<rightharpoonup> CnsVolumeOperationRequest"
  getFails :: "string \<Rightarrow> bool"
  createFails :: "string \<Rightarrow> bool"
  updateFails :: "string \<Rightarrow> bool"

definition k8sGet :: "k8sclient \<Rightarrow> string \<Rightarrow> error + CnsVolumeOperationRequest" where
  "k8sGet c name =
     (if getFails c name then Inl GoError
      else case objects c name of None \<Rightarrow> Inl ApiNotFound | Some instance \<Rightarrow> Inr instance)"

definition k8sCreate :: "k8sclient \<Rightarrow> string \<Rightarrow> CnsVolumeOperationRequest \<Rightarrow> (error + unit) \<times> k8sclient" where
  "k8sCreate c name instance =
     (if createFails c name \<or> objects c name \<noteq> None then (Inl GoError, c)
      else (Inr (), c\<lparr>objects := (objects c)(name \<mapsto> instance)\<rparr>))"

definition k8sUpdate :: "k8sclient \<Rightarrow> string \<Rightarrow> CnsVolumeOperationRequest \<Rightarrow> (error + unit) \<times> k8sclient" where
  "k8sUpdate c name instance =
     (if updateFails c name then (Inl GoError, c)
      else if objects c name = None then (Inl ApiNotFound, c)
      else (Inr (), c\<lparr>objects := (objects c)(name \<mapsto> instance)\<rparr>))"

definition GetRequestDetails :: "k8sclient \<Rightarrow> string \<Rightarrow> error + VolumeOperationRequestDetails" where
  "GetRequestDetails c name =
     (case k8sGet c name of
        Inl err \<Rightarrow> Inl err
      | Inr instance \<Rightarrow>
          if length (LatestOperationDetails instance) = 0 then Inl GoError
          else
            let operationDetailsToReturn =
                  LatestOperationDetails instance ! (length (LatestOperationDetails instance) - 1)
            in Inr (CreateVolumeOperationRequestDetails (SpecName instance)
                      (StatusVolumeID instance) (StatusSnapshotID instance)
                      (StatusCapacity instance)
                      (TaskInvocationTimestamp operationDetailsToReturn)
                      (TaskID operationDetailsToReturn) (OpID operationDetailsToReturn)
                      (TaskStatus operationDetailsToReturn) (Error operationDetailsToReturn)))"

text \<open>
  The loop of \<open>StoreRequestDetails\<close> over the stored list, from its last index down to
  0: \<open>n\<close> is the index plus one. It reads the task identifiers of the instance as
  fetched and writes into the copy; it returns \<open>operationExistsInList\<close> and the copy.
\<close>

fun updateExisting ::
  "OperationDetails list \<Rightarrow> OperationDetails \<Rightarrow> nat \<Rightarrow> OperationDetails list
     \<Rightarrow> bool \<times> OperationDetails list" where
  "updateExisting latest operationDetailsToStore 0 updated = (False, updated)"
| "updateExisting latest operationDetailsToStore (Suc index) updated =
     (if TaskID operationDetailsToStore = TaskID (latest ! index)
      then (True, updated[index := operationDetailsToStore])
      else updateExisting latest operationDetailsToStore index updated)"

text \<open>The instance that \<open>StoreRequestDetails\<close> sends back when the entry exists.\<close>

definition updatedInstance ::
  "CnsVolumeOperationRequest \<Rightarrow> VolumeOperationRequestDetails \<Rightarrow> OperationDetails
     \<Rightarrow> OperationDetails \<Rightarrow> CnsVolumeOperationRequest" where
  "updatedInstance instance operationToStore details operationDetailsToStore =
     (let u1 = instance\<lparr>StatusVolumeID := VolumeID operationToStore,
                         StatusSnapshotID := SnapshotID operationToStore,
                         StatusCapacity := Capacity operationToStore\<rparr>;
          firstOp = FirstOperationDetails instance;
          u2 = (if TaskID firstOp = '''' \<or> TaskID firstOp = TaskID details
                then u1\<lparr>FirstOperationDetails := operationDetailsToStore\<rparr> else u1);
          (operationExistsInList, l) =
             updateExisting (LatestOperationDetails instance) operationDetailsToStore
               (length (LatestOperationDetails instance)) (LatestOperationDetails u2)
      in if \<not> operationExistsInList then
           let appended = l @ [operationDetailsToStore]
           in if length appended > maxEntriesInLatestOperationDetails
              then u2\<lparr>LatestOperationDetails := drop 1 appended\<rparr>
              else u2\<lparr>LatestOperationDetails := appended\<rparr>
         else u2\<lparr>LatestOperationDetails := l\<rparr>)"

definition StoreRequestDetails ::
  "k8sclient \<Rightarrow> VolumeOperationRequestDetails option \<Rightarrow> (error + unit) \<times> k8sclient" where
  "StoreRequestDetails c operationToStoreOpt =
     (case operationToStoreOpt of
        None \<Rightarrow> (Inl GoError, c)
      | Some operationToStore \<Rightarrow>
         (case OperationDetails operationToStore of
            None \<Rightarrow> (Inl Panic, c)
          | Some details \<Rightarrow>
             let operationDetailsToStore = convertToCnsVolumeOperationRequestDetails details;
                 name = Name operationToStore
             in (case k8sGet c name of
                   Inl err \<Rightarrow>
                     if err = ApiNotFound then
                       k8sCreate c name
                         \<lparr>SpecName = name,
                          StatusVolumeID = VolumeID operationToStore,
                          StatusSnapshotID = SnapshotID operationToStore,
                          StatusCapacity = Capacity operationToStore,
                          FirstOperationDetails = operationDetailsToStore,
                          LatestOperationDetails = [operationDetailsToStore]\<rparr>
                     else (Inl err, c)
                 | Inr instance \<Rightarrow>
                     k8sUpdate c name
                       (updatedInstance instance operationToStore details operationDetailsToStore))))"

section \<open>The host: files, devices and the mount table\<close>

text \<open>
  What \<open>os.Stat\<close> and \<open>os.Lstat\<close> tell about a path: the kind of file there, that
  nothing is there, or another error. \<open>DeviceNode\<close> is a mode with \<open>os.ModeDevice\<close>
  set.
\<close>

datatype fmode = Directory | Regular | DeviceNode

datatype stat_result = StatOK fmode | NotExist | StatErr

text \<open>\<open>gofsutil.Info\<close>: one entry of the mount table.\<close>

record Info =
  Device :: string
  Path :: string
  Source :: string
  Type :: string
  Opts :: "string list"

text \<open>The commands that change the host, with their arguments.\<close>

datatype oscall =
    Mount string string string "string list"
  | FormatAndMount string string string "string list"
  | BindMount string string "string list"
  | Unmount string
  | Mkdir string
  | OpenFile string
  | Remove string

text \<open>
  The host as the node service sees it. Reading never changes it. \<open>fails\<close> says which
  commands the operating system refuses; \<open>mountEffect\<close> is what a successful mount or
  unmount command does to the mount table, which is the kernel's business and a
  parameter here; \<open>trace\<close> records every command issued, in order.
\<close>

record host =
  stat :: "string \<Rightarrow> stat_result"
  lstat :: "string \<Rightarrow> stat_result"
  evalSymlinks :: "string \<Rightarrow> string option"
  readDir :: "string \<Rightarrow> string list option"
  mountsFail :: bool
  mounts :: "Info list"
  fails :: "oscall \<Rightarrow> bool"
  mountEffect :: "oscall \<Rightarrow> Info list \<Rightarrow> Info list"
  clusterFlavorGuest :: bool
  trace :: "oscall list"

definition effect :: "oscall \<Rightarrow> host \<Rightarrow> host" where
  "effect call h =
     (case call of
        Mkdir p \<Rightarrow> h\<lparr>stat := (stat h)(p := StatOK Directory),
                        lstat := (lstat h)(p := StatOK Directory)\<rparr>
      | OpenFile p \<Rightarrow> h\<lparr>stat := (stat h)(p := StatOK Regular),
                           lstat := (lstat h)(p := StatOK Regular)\<rparr>
      | Remove p \<Rightarrow> h\<lparr>stat := (stat h)(p := NotExist), lstat := (lstat h)(p := NotExist)\<rparr>
      | _ \<Rightarrow> h\<lparr>mounts := mountEffect h call (mounts h)\<rparr>)"

text \<open>Issue a command: it is recorded; the answer is whether it succeeded.\<close>

definition run :: "oscall \<Rightarrow> host \<Rightarrow> bool \<times> host" where
  "run call h =
     (let h' = h\<lparr>trace := trace h @ [call]\<rparr>
      in if fails h call then (False, h') else (True, effect call h'))"

text \<open>
  \<open>gofsutil.GetMounts\<close> reads the mount table; \<open>gofsutil.GetDevMounts\<close> keeps the
  entries whose device is the given one.
\<close>

definition GetMounts :: "host \<Rightarrow> error + Info list" where
  "GetMounts h = (if mountsFail h then Inl GoError else Inr (mounts h))"

definition GetDevMounts :: "host \<Rightarrow> string \<Rightarrow> error + Info list" where
  "GetDevMounts h dev =
     (case GetMounts h of
        Inl err \<Rightarrow> Inl err
      | Inr allMnts \<Rightarrow> Inr (filter (\<lambda>m. Device m = dev) allMnts))"

section \<open>Requests\<close>

datatype accessType = MountAccess string "string list" | BlockAccess | NoAccess

text \<open>
  The capability of a request: its access type, and what the helpers of package
  \<open>common\<close>, which are outside the source files at hand, answer for it:
  \<open>IsFileVolumeRequest\<close>, \<open>IsVolumeReadOnly\<close> and \<open>GetVolumeCapabilityFsType\<close>.
\<close>

record VolumeCapability =
  AccessType :: accessType
  IsFileVolumeRequest :: bool
  IsVolumeReadOnly :: bool
  GetVolumeCapabilityFsType :: string

text \<open>
  The fields of the four node requests that the code reads; a request without a field
  has its zero value there, as the getters of the generated messages give it.
\<close>

record csiRequest =
  VolumeId :: string
  PublishContext :: "string \<rightharpoonup> string"
  StagingTargetPath :: string
  TargetPath :: string
  VolumeCapability :: VolumeCapability
  Readonly :: bool

record nodeStageParams =
  volID :: string
  fsType :: string
  stagingTarget :: string
  mntFlags :: "string list"
  ro :: bool

record nodePublishParams =
  volID' :: string
  target :: string
  stagingTarget' :: string
  diskID :: string
  volumePath :: string
  device :: string
  ro' :: bool

record Device =
  FullPath :: string
  DeviceName :: string
  RealDev :: string

definition devDiskID :: string where
  "devDiskID = ''/dev/disk/by-id''"

definition blockPrefix :: string where
  "blockPrefix = ''wwn-0x''"

text \<open>
  Modelled from the spec: the keys of the publish context, \<open>AttributeFirstClassDiskUUID\<close>
  (the disk identifier) and \<open>Nfsv4AccessPoint\<close> (the network share endpoint), are
  constants of package \<open>common\<close>, outside the source files at hand.
\<close>

definition AttributeFirstClassDiskUUID :: string where
  "AttributeFirstClassDiskUUID = ''diskUUID''"

definition Nfsv4AccessPoint :: string where
  "Nfsv4AccessPoint = ''Nfsv4AccessPoint''"

text \<open>
  Modelled from the spec: \<open>common.IsTargetInMounts\<close> is the Mount Inspector's
  \<open>ContainsPath\<close>, and \<open>common.IsFileVolumeMount\<close> its \<open>ClassifyMount\<close>, which looks
  at the entry mounted at the path; an entry of a file share has the type nfs4, as in
  the example entries listed in \<open>getDevFromMount\<close>.
\<close>

fun IsTargetInMounts :: "string \<Rightarrow> Info list \<Rightarrow> bool" where
  "IsTargetInMounts tgt [] = False"
| "IsTargetInMounts tgt (m # mnts) = (if Path m = tgt then True else IsTargetInMounts tgt mnts)"

fun IsFileVolumeMount :: "string \<Rightarrow> Info list \<Rightarrow> bool" where
  "IsFileVolumeMount tgt [] = False"
| "IsFileVolumeMount tgt (m # mnts) =
     (if Path m = tgt then Type m = ''nfs4'' else IsFileVolumeMount tgt mnts)"

section \<open>Helpers of the node service (pkg/csi/service/node.go)\<close>

fun contains :: "string list \<Rightarrow> string \<Rightarrow> bool" where
  "contains [] item = False"
| "contains (x # list) item = (if x = item then True else contains list item)"

text \<open>
  \<open>FileInfo.Name\<close> of \<open>os.Lstat\<close>: the base name of the path as given. On the reversed
  path: trailing slashes go, but never the first byte; then the bytes after the last
  slash that stands before the final byte remain.
\<close>

fun stripSlashes :: "string \<Rightarrow> string" where
  "stripSlashes (c # d # cs) = (if c = CHR ''/'' then stripSlashes (d # cs) else c # d # cs)"
| "stripSlashes cs = cs"

definition basename :: "string \<Rightarrow> string" where
  "basename name =
     (case stripSlashes (rev name) of
        [] \<Rightarrow> []
      | c # cs \<Rightarrow> rev (c # takeWhile (\<lambda>x. x \<noteq> CHR ''/'') cs))"

definition getDevice :: "host \<Rightarrow> string \<Rightarrow> error + Device" where
  "getDevice h path =
     (case lstat h path of
        StatOK fi \<Rightarrow>
          (case evalSymlinks h path of
             None \<Rightarrow> Inl GoError
           | Some d \<Rightarrow>
               (case stat h d of
                  StatOK dm \<Rightarrow>
                    if dm \<noteq> DeviceNode then Inl GoError
                    else Inr \<lparr>FullPath = path, DeviceName = basename path, RealDev = d\<rparr>
                | _ \<Rightarrow> Inl GoError))
      | _ \<Rightarrow> Inl GoError)"

text \<open>
  \<open>getDiskPath\<close>: \<open>files\<close> is nil (\<open>None\<close>) outside tests, and the directory is read.
  The names of directory entries hold no separator, so \<open>filepath.Join\<close> has nothing
  to clean.
\<close>

fun findDisk :: "string list \<Rightarrow> string \<Rightarrow> string" where
  "findDisk [] targetDisk = []"
| "findDisk (f # devs) targetDisk =
     (if f = targetDisk then devDiskID @ ''/'' @ f else findDisk devs targetDisk)"

definition getDiskPath :: "host \<Rightarrow> string \<Rightarrow> string list option \<Rightarrow> error + string" where
  "getDiskPath h ident files =
     (case (case files of None \<Rightarrow> readDir h devDiskID | Some fs \<Rightarrow> Some fs) of
        None \<Rightarrow> Inl GoError
      | Some devs \<Rightarrow> Inr (findDisk devs (blockPrefix @ ident)))"

definition verifyVolumeAttached :: "host \<Rightarrow> string \<Rightarrow> error + string" where
  "verifyVolumeAttached h dID =
     (case getDiskPath h dID None of
        Inl err \<Rightarrow> Inl (Status Internal)
      | Inr volPath \<Rightarrow> if volPath = [] then Inl (Status NotFound) else Inr volPath)"

definition verifyTargetDir :: "host \<Rightarrow> string \<Rightarrow> bool \<Rightarrow> error + bool" where
  "verifyTargetDir h tgt targetShouldExist =
     (if tgt = [] then Inl (Status InvalidArgument)
      else case stat h tgt of
             NotExist \<Rightarrow> if targetShouldExist then Inl (Status FailedPrecondition) else Inr False
           | StatErr \<Rightarrow> Inl (Status Internal)
           | StatOK tgtStat \<Rightarrow>
               if tgtStat \<noteq> Directory then Inl (Status FailedPrecondition) else Inr True)"

definition mkdir :: "host \<Rightarrow> string \<Rightarrow> (error + bool) \<times> host" where
  "mkdir h path =
     (case stat h path of
        NotExist \<Rightarrow>
          (case run (Mkdir path) h of
             (False, h') \<Rightarrow> (Inl GoError, h')
           | (True, h') \<Rightarrow> (Inr True, h'))
      | StatErr \<Rightarrow> (Inl GoError, h)
      | StatOK st \<Rightarrow> if st \<noteq> Directory then (Inl GoError, h) else (Inr False, h))"

text \<open>
  \<open>mkfile\<close> tests only \<open>os.IsNotExist\<close>: after any other error of \<open>os.Stat\<close> the file
  information is nil and \<open>st.IsDir()\<close> panics.
\<close>

definition mkfile :: "host \<Rightarrow> string \<Rightarrow> (error + bool) \<times> host" where
  "mkfile h path =
     (case stat h path of
        NotExist \<Rightarrow>
          (case run (OpenFile path) h of
             (False, h') \<Rightarrow> (Inl GoError, h')
           | (True, h') \<Rightarrow> (Inr True, h'))
      | StatErr \<Rightarrow> (Inl Panic, h)
      | StatOK st \<Rightarrow> if st = Directory then (Inl GoError, h) else (Inr False, h))"

definition rmpath :: "host \<Rightarrow> string \<Rightarrow> (error + unit) \<times> host" where
  "rmpath h tgt =
     (case run (Remove tgt) h of
        (False, h') \<Rightarrow> (Inl (Status Internal), h')
      | (True, h') \<Rightarrow> (Inr (), h'))"

definition ensureMountVol :: "VolumeCapability \<Rightarrow> error + string \<times> string list" where
  "ensureMountVol volCap =
     (case AccessType volCap of
        MountAccess fstype flags \<Rightarrow> Inr (GetVolumeCapabilityFsType volCap, flags)
      | _ \<Rightarrow> Inl (Status InvalidArgument))"

definition getDevMounts :: "host \<Rightarrow> Device \<Rightarrow> error + Info list" where
  "getDevMounts h sysDevice =
     (case GetMounts h of
        Inl err \<Rightarrow> Inl err
      | Inr mnts \<Rightarrow>
          Inr (filter (\<lambda>m. Device m = RealDev sysDevice \<or>
                            (Device m = ''devtmpfs'' \<and> Source m = RealDev sysDevice)) mnts))"

definition getDiskID :: "(string \<rightharpoonup> string) \<Rightarrow> error + string" where
  "getDiskID pubCtx =
     (case pubCtx AttributeFirstClassDiskUUID of
        None \<Rightarrow> Inl (Status InvalidArgument)
      | Some d \<Rightarrow> Inr d)"

fun devFromMounts :: "host \<Rightarrow> Info list \<Rightarrow> string \<Rightarrow> error + Device option" where
  "devFromMounts h [] tgt = Inr None"
| "devFromMounts h (m # mnts) tgt =
     (if Path m = tgt then
        let d = (if Device m = ''udev'' \<or> Device m = ''devtmpfs'' then Source m else Device m)
        in (case getDevice h d of Inl err \<Rightarrow> Inl err | Inr dev \<Rightarrow> Inr (Some dev))
      else devFromMounts h mnts tgt)"

definition getDevFromMount :: "host \<Rightarrow> string \<Rightarrow> error + Device option" where
  "getDevFromMount h tgt =
     (case GetMounts h of
        Inl err \<Rightarrow> Inl err
      | Inr mnts \<Rightarrow> devFromMounts h mnts tgt)"

section \<open>Stage and unstage (pkg/csi/service/node.go)\<close>

text \<open>
  The loop of \<open>nodeStageBlockVolume\<close> over the mounts of a device that is already
  mounted: the first entry at the staging target decides.
\<close>

fun checkStaged :: "Info list \<Rightarrow> nodeStageParams \<Rightarrow> error + unit" where
  "checkStaged [] params = Inl (Status Internal)"
| "checkStaged (m # mnts) params =
     (if Path m = stagingTarget params then
        let rwo = (if ro params then ''ro'' else ''rw'')
        in if contains (Opts m) rwo then Inr () else Inl (Status AlreadyExists)
      else checkStaged mnts params)"

definition nodeStageBlockVolume ::
  "host \<Rightarrow> csiRequest \<Rightarrow> nodeStageParams \<Rightarrow> (error + unit) \<times> host" where
  "nodeStageBlockVolume h req params =
     (case getDiskID (PublishContext req) of
        Inl err \<Rightarrow> (Inl err, h)
      | Inr dID \<Rightarrow>
     (case verifyVolumeAttached h dID of
        Inl err \<Rightarrow> (Inl err, h)
      | Inr volPath \<Rightarrow>
     (case getDevice h volPath of
        Inl err \<Rightarrow> (Inl (Status Internal), h)
      | Inr dev \<Rightarrow>
     if AccessType (VolumeCapability req) = BlockAccess then (Inr (), h)
     else
     (case GetDevMounts h (RealDev dev) of
        Inl err \<Rightarrow> (Inl (Status Internal), h)
      | Inr mnts \<Rightarrow>
          if length mnts = 0 then
            if ro params then
              let params = params\<lparr>mntFlags := mntFlags params @ [''ro'']\<rparr>
              in (case run (Mount (FullPath dev) (stagingTarget params) (fsType params)
                              (mntFlags params)) h of
                    (False, h') \<Rightarrow> (Inl (Status Internal), h')
                  | (True, h') \<Rightarrow> (Inr (), h'))
            else
              (case run (FormatAndMount (FullPath dev) (stagingTarget params) (fsType params)
                           (mntFlags params)) h of
                 (False, h') \<Rightarrow> (Inl (Status Internal), h')
               | (True, h') \<Rightarrow> (Inr (), h'))
          else (checkStaged mnts params, h)))))"

definition NodeStageVolume :: "host \<Rightarrow> csiRequest \<Rightarrow> (error + unit) \<times> host" where
  "NodeStageVolume h req =
     (let volCap = VolumeCapability req
      in if IsFileVolumeRequest volCap then (Inr (), h)
         else
           let params = \<lparr>volID = VolumeId req, fsType = [], stagingTarget = [], mntFlags = [],
                         ro = IsVolumeReadOnly volCap\<rparr>
           in (case AccessType volCap of
                 MountAccess fstype flags \<Rightarrow>
                   (case ensureMountVol volCap of
                      Inl err \<Rightarrow> (Inl err, h)
                    | Inr (fs, mf) \<Rightarrow>
                        let params = params\<lparr>fsType := fs, mntFlags := mf,
                                             stagingTarget := StagingTargetPath req\<rparr>
                        in (case verifyTargetDir h (stagingTarget params) True of
                              Inl err \<Rightarrow> (Inl err, h)
                            | Inr ok \<Rightarrow> nodeStageBlockVolume h req params))
               | _ \<Rightarrow> nodeStageBlockVolume h req params))"

definition isBlockVolumeMounted :: "host \<Rightarrow> string \<Rightarrow> string \<Rightarrow> error + bool" where
  "isBlockVolumeMounted h vID stagingTargetPath =
     (case getDevFromMount h stagingTargetPath of
        Inl err \<Rightarrow> Inl (Status Internal)
      | Inr None \<Rightarrow> Inr False
      | Inr (Some dev) \<Rightarrow>
          (case GetDevMounts h (RealDev dev) of
             Inl err \<Rightarrow> Inl (Status Internal)
           | Inr mnts \<Rightarrow> if length mnts > 1 then Inl (Status Internal) else Inr True))"

definition NodeUnstageVolume :: "host \<Rightarrow> csiRequest \<Rightarrow> (error + unit) \<times> host" where
  "NodeUnstageVolume h req =
     (let stagingTgt = StagingTargetPath req
      in case GetMounts h of
           Inl err \<Rightarrow> (Inl (Status Internal), h)
         | Inr mnts \<Rightarrow>
             if \<not> IsTargetInMounts stagingTgt mnts then (Inr (), h)
             else
               (case verifyTargetDir h stagingTgt False of
                  Inl err \<Rightarrow> (Inl err, h)
                | Inr dirExists \<Rightarrow>
                    if \<not> dirExists then (Inr (), h)
                    else
                      (case isBlockVolumeMounted h (VolumeId req) stagingTgt of
                         Inl err \<Rightarrow> (Inl err, h)
                       | Inr isMounted \<Rightarrow>
                           if isMounted then
                             (case run (Unmount stagingTgt) h of
                                (False, h') \<Rightarrow> (Inl (Status Internal), h')
                              | (True, h') \<Rightarrow> (Inr (), h'))
                           else (Inr (), h))))"

section \<open>Publish and unpublish (pkg/csi/service/node.go)\<close>

text \<open>
  The loop shared by \<open>publishMountVol\<close> and \<open>publishFileVol\<close>: the first entry at the
  target decides, and \<open>None\<close> is the loop running to its end.
\<close>

fun alreadyPublished :: "Info list \<Rightarrow> string \<Rightarrow> bool \<Rightarrow> (error + unit) option" where
  "alreadyPublished [] tgt readOnly = None"
| "alreadyPublished (m # mnts) tgt readOnly =
     (if Path m = tgt then
        let rwo = (if readOnly then ''ro'' else ''rw'')
        in if \<not> contains (Opts m) rwo then Some (Inl (Status AlreadyExists)) else Some (Inr ())
      else alreadyPublished mnts tgt readOnly)"

definition publishMountVol ::
  "host \<Rightarrow> csiRequest \<Rightarrow> Device \<Rightarrow> nodePublishParams \<Rightarrow> (error + unit) \<times> host" where
  "publishMountVol h req dev params =
     (case ensureMountVol (VolumeCapability req) of
        Inl err \<Rightarrow> (Inl err, h)
      | Inr (fs, flags) \<Rightarrow>
     (case mkdir h (target params) of
        (Inl err, h1) \<Rightarrow> (Inl (Status Internal), h1)
      | (Inr created, h1) \<Rightarrow>
     (case verifyTargetDir h1 (stagingTarget' params) True of
        Inl err \<Rightarrow> (Inl err, h1)
      | Inr ok \<Rightarrow>
     (case getDevMounts h1 dev of
        Inl err \<Rightarrow> (Inl (Status Internal), h1)
      | Inr devMnts \<Rightarrow>
          let bind =
                (let flags = (if ro' params then flags @ [''ro''] else flags)
                 in case run (BindMount (stagingTarget' params) (target params) flags) h1 of
                      (False, h2) \<Rightarrow> (Inl (Status Internal), h2)
                    | (True, h2) \<Rightarrow> (Inr (), h2))
          in if length devMnts > 1 then
               (case alreadyPublished devMnts (target params) (ro' params) of
                  Some res \<Rightarrow> (res, h1)
                | None \<Rightarrow> bind)
             else if length devMnts = 0 then (Inl (Status FailedPrecondition), h1)
             else bind))))"

definition publishBlockVol ::
  "host \<Rightarrow> csiRequest \<Rightarrow> Device \<Rightarrow> nodePublishParams \<Rightarrow> (error + unit) \<times> host" where
  "publishBlockVol h req dev params =
     (case mkfile h (target params) of
        (Inl Panic, h1) \<Rightarrow> (Inl Panic, h1)
      | (Inl err, h1) \<Rightarrow> (Inl (Status Internal), h1)
      | (Inr created, h1) \<Rightarrow>
          if ro' params then (Inl (Status InvalidArgument), h1)
          else
            (case getDevMounts h1 dev of
               Inl err \<Rightarrow> (Inl (Status Internal), h1)
             | Inr devMnts \<Rightarrow>
                 if length devMnts = 0 then
                   (case run (BindMount (FullPath dev) (target params) []) h1 of
                      (False, h2) \<Rightarrow> (Inl (Status Internal), h2)
                    | (True, h2) \<Rightarrow> (Inr (), h2))
                 else if length devMnts = 1 then
                   if Path (devMnts ! 0) \<noteq> target params then (Inl (Status Internal), h1)
                   else (Inr (), h1)
                 else (Inl (Status AlreadyExists), h1)))"

definition publishFileVol ::
  "host \<Rightarrow> csiRequest \<Rightarrow> nodePublishParams \<Rightarrow> (error + unit) \<times> host" where
  "publishFileVol h req params =
     (case ensureMountVol (VolumeCapability req) of
        Inl err \<Rightarrow> (Inl err, h)
      | Inr (fs, flags) \<Rightarrow>
     (case mkdir h (target params) of
        (Inl err, h1) \<Rightarrow> (Inl (Status Internal), h1)
      | (Inr created, h1) \<Rightarrow>
     (case GetMounts h1 of
        Inl err \<Rightarrow> (Inl (Status Internal), h1)
      | Inr mnts \<Rightarrow>
     (case alreadyPublished mnts (target params) (ro' params) of
        Some res \<Rightarrow> (res, h1)
      | None \<Rightarrow>
          let flags = (if ro' params then flags @ [''ro''] else flags);
              flags = (if clusterFlavorGuest h1 then flags @ [''hard''] else flags)
          in (case PublishContext req Nfsv4AccessPoint of
                None \<Rightarrow> (Inl (Status Internal), h1)
              | Some mntSrc \<Rightarrow>
                  (case run (Mount mntSrc (target params) fs flags) h1 of
                     (False, h2) \<Rightarrow> (Inl (Status Internal), h2)
                   | (True, h2) \<Rightarrow> (Inr (), h2)))))))"

definition NodePublishVolume :: "host \<Rightarrow> csiRequest \<Rightarrow> (error + unit) \<times> host" where
  "NodePublishVolume h req =
     (let params = \<lparr>volID' = VolumeId req, target = TargetPath req, stagingTarget' = [],
                    diskID = [], volumePath = [], device = [], ro' = Readonly req\<rparr>;
          params = params\<lparr>stagingTarget' := StagingTargetPath req\<rparr>
      in if stagingTarget' params = [] then (Inl (Status FailedPrecondition), h)
         else
           let volCap = VolumeCapability req
           in if \<not> IsFileVolumeRequest volCap then
                (case getDiskID (PublishContext req) of
                   Inl err \<Rightarrow> (Inl err, h)
                 | Inr dID \<Rightarrow>
                     let params = params\<lparr>diskID := dID\<rparr>
                     in (case verifyVolumeAttached h (diskID params) of
                           Inl err \<Rightarrow> (Inl err, h)
                         | Inr volPath \<Rightarrow>
                             (case getDevice h volPath of
                                Inl err \<Rightarrow> (Inl (Status Internal), h)
                              | Inr dev \<Rightarrow>
                                  let params = params\<lparr>volumePath := FullPath dev,
                                                       device := RealDev dev\<rparr>
                                  in if AccessType volCap = BlockAccess
                                     then publishBlockVol h req dev params
                                     else publishMountVol h req dev params)))
              else publishFileVol h req params)"

definition isBlockVolumePublished :: "host \<Rightarrow> string \<Rightarrow> string \<Rightarrow> (error + bool) \<times> host" where
  "isBlockVolumePublished h vID tgt =
     (case getDevFromMount h tgt of
        Inl err \<Rightarrow> (Inl (Status Internal), h)
      | Inr None \<Rightarrow>
          (case rmpath h tgt of
             (Inl err, h') \<Rightarrow> (Inl (Status Internal), h')
           | (Inr u, h') \<Rightarrow> (Inr False, h'))
      | Inr (Some dev) \<Rightarrow> (Inr True, h))"

definition NodeUnpublishVolume :: "host \<Rightarrow> csiRequest \<Rightarrow> (error + unit) \<times> host" where
  "NodeUnpublishVolume h req =
     (let vID = VolumeId req; tgt = TargetPath req
      in case stat h tgt of
           NotExist \<Rightarrow> (Inr (), h)
         | StatErr \<Rightarrow> (Inl (Status Internal), h)
         | StatOK st \<Rightarrow>
             (case GetMounts h of
                Inl err \<Rightarrow> (Inl (Status Internal), h)
              | Inr mnts \<Rightarrow>
                  if \<not> IsTargetInMounts tgt mnts then (Inr (), h)
                  else
                    let isFileMount = IsFileVolumeMount tgt mnts
                    in (case (if \<not> isFileMount then isBlockVolumePublished h vID tgt
                              else (Inr True, h)) of
                          (Inl err, h1) \<Rightarrow> (Inl err, h1)
                        | (Inr isPublished, h1) \<Rightarrow>
                            if isPublished then
                              (case run (Unmount tgt) h1 of
                                 (False, h2) \<Rightarrow> (Inl (Status Internal), h2)
                               | (True, h2) \<Rightarrow>
                                   (case rmpath h2 tgt of
                                      (Inl err, h3) \<Rightarrow> (Inl err, h3)
                                    | (Inr u, h3) \<Rightarrow> (Inr (), h3)))
                            else (Inr (), h1))))"

section \<open>Example inputs\<close>

text \<open>A ledger with one entry, whose history holds one operation, and a second operation.\<close>

definition taskA :: OperationDetails where
  "taskA = \<lparr>TaskInvocationTimestamp = 1, TaskID = ''task-a'', OpID = ''op-a'',
            TaskStatus = ''Success'', Error = []\<rparr>"

definition taskB :: OperationDetails where
  "taskB = \<lparr>TaskInvocationTimestamp = 2, TaskID = ''task-b'', OpID = ''op-b'',
            TaskStatus = ''InProgress'', Error = []\<rparr>"

definition entryA :: CnsVolumeOperationRequest where
  "entryA = \<lparr>SpecName = ''pvc-1'', StatusVolumeID = ''vol-1'', StatusSnapshotID = [],
             StatusCapacity = 1024, FirstOperationDetails = taskA,
             LatestOperationDetails = [taskA]\<rparr>"

definition ledgerA :: k8sclient where
  "ledgerA = \<lparr>objects = [''pvc-1'' \<mapsto> entryA], getFails = (\<lambda>n. False),
              createFails = (\<lambda>n. False), updateFails = (\<lambda>n. False)\<rparr>"

definition storeB :: VolumeOperationRequestDetails where
  "storeB = \<lparr>Name = ''pvc-1'', VolumeID = ''vol-1'', SnapshotID = [], Capacity = 1024,
             OperationDetails = Some taskB\<rparr>"

text \<open>
  A node with one attached disk, \<open>/dev/sdb\<close>, linked from the directory of disks by
  identifier, and a staging directory made by the orchestrator. Its kernel lists a
  mounted device under its resolved path, a bind mount of a mount point under the device
  mounted there and a bind-mounted device node under devtmpfs, as in the example entries
  listed in \<open>getDevFromMount\<close>; it shows a mount as read-write unless it was asked to
  be read-only.
\<close>

definition kernelOpts :: "string list \<Rightarrow> string list" where
  "kernelOpts flags = (if ''ro'' \<in> set flags then flags else ''rw'' # flags)"

definition exampleKernel :: "(string \<Rightarrow> string option) \<Rightarrow> oscall \<Rightarrow> Info list \<Rightarrow> Info list" where
  "exampleKernel resolve call ms =
     (case call of
        Mount src tgt fs flags \<Rightarrow>
          ms @ [\<lparr>Device = (case resolve src of Some d \<Rightarrow> d | None \<Rightarrow> src), Path = tgt,
                  Source = src, Type = fs, Opts = kernelOpts flags\<rparr>]
      | FormatAndMount src tgt fs flags \<Rightarrow>
          ms @ [\<lparr>Device = (case resolve src of Some d \<Rightarrow> d | None \<Rightarrow> src), Path = tgt,
                  Source = src, Type = fs, Opts = kernelOpts flags\<rparr>]
      | BindMount src tgt flags \<Rightarrow>
          (case find (\<lambda>m. Path m = src) ms of
             Some m \<Rightarrow>
               ms @ [\<lparr>Device = Device m, Path = tgt, Source = src, Type = Type m,
                       Opts = kernelOpts flags\<rparr>]
           | None \<Rightarrow>
               ms @ [\<lparr>Device = ''devtmpfs'', Path = tgt,
                       Source = (case resolve src of Some d \<Rightarrow> d | None \<Rightarrow> src),
                       Type = ''devtmpfs'', Opts = kernelOpts flags\<rparr>])
      | Unmount tgt \<Rightarrow> filter (\<lambda>m. Path m \<noteq> tgt) ms
      | _ \<Rightarrow> ms)"

definition nodeFiles :: "string \<Rightarrow> stat_result" where
  "nodeFiles p =
     (if p = ''/dev/sdb'' then StatOK DeviceNode
      else if p = ''/dev/disk/by-id/wwn-0x6000c29'' then StatOK DeviceNode
      else if p = ''/staging'' then StatOK Directory
      else NotExist)"

definition nodeLinks :: "string \<Rightarrow> string option" where
  "nodeLinks p = (if p = ''/dev/disk/by-id/wwn-0x6000c29'' then Some ''/dev/sdb'' else Some p)"

definition nodeA :: host where
  "nodeA = \<lparr>stat = nodeFiles, lstat = nodeFiles, evalSymlinks = nodeLinks,
            readDir = (\<lambda>d. if d = ''/dev/disk/by-id'' then Some [''wwn-0x6000c29''] else None),
            mountsFail = False, mounts = [], fails = (\<lambda>call. False),
            mountEffect = exampleKernel nodeLinks, clusterFlavorGuest = False, trace = []\<rparr>"

definition stagedMount :: Info where
  "stagedMount = \<lparr>Device = ''/dev/sdb'', Path = ''/staging'', Source = ''/dev/sdb'',
                  Type = ''ext4'', Opts = [''rw'', ''relatime'']\<rparr>"

definition podMount :: Info where
  "podMount = \<lparr>Device = ''/dev/sdb'', Path = ''/pods/a'', Source = ''/staging'',
               Type = ''ext4'', Opts = [''rw'', ''relatime'']\<rparr>"

text \<open>The node with the disk staged, and with the disk staged and published to one pod.\<close>

definition nodeStaged :: host where
  "nodeStaged = nodeA\<lparr>mounts := [stagedMount]\<rparr>"

definition nodeTwoMounts :: host where
  "nodeTwoMounts = nodeA\<lparr>mounts := [stagedMount, podMount]\<rparr>"

text \<open>The node with a directory, and with a leftover file, at the publish target.\<close>

definition nodeDirAtTarget :: host where
  "nodeDirAtTarget = nodeA\<lparr>stat := nodeFiles(''/pods/b'' := StatOK Directory),
                           lstat := nodeFiles(''/pods/b'' := StatOK Directory)\<rparr>"

definition nodeLeftover :: host where
  "nodeLeftover = nodeA\<lparr>stat := nodeFiles(''/pods/b'' := StatOK Regular),
                        lstat := nodeFiles(''/pods/b'' := StatOK Regular)\<rparr>"

definition capMount :: VolumeCapability where
  "capMount = \<lparr>AccessType = MountAccess ''ext4'' [''noatime''], IsFileVolumeRequest = False,
               IsVolumeReadOnly = False, GetVolumeCapabilityFsType = ''ext4''\<rparr>"

definition capBlock :: VolumeCapability where
  "capBlock = \<lparr>AccessType = BlockAccess, IsFileVolumeRequest = False,
               IsVolumeReadOnly = False, GetVolumeCapabilityFsType = []\<rparr>"

definition reqMount :: csiRequest where
  "reqMount = \<lparr>VolumeId = ''vol-1'', PublishContext = [''diskUUID'' \<mapsto> ''6000c29''],
               StagingTargetPath = ''/staging'', TargetPath = ''/pods/b'',
               VolumeCapability = capMount, Readonly = False\<rparr>"

definition reqBlock :: csiRequest where
  "reqBlock = \<lparr>VolumeId = ''vol-1'', PublishContext = [''diskUUID'' \<mapsto> ''6000c29''],
               StagingTargetPath = ''/staging'', TargetPath = ''/pods/b'',
               VolumeCapability = capBlock, Readonly = False\<rparr>"

definition reqBlockReadOnly :: csiRequest where
  "reqBlockReadOnly = reqBlock\<lparr>Readonly := True\<rparr>"

definition reqMountReadOnly :: csiRequest where
  "reqMountReadOnly = reqMount\<lparr>VolumeCapability := capMount\<lparr>IsVolumeReadOnly := True\<rparr>\<rparr>"

definition diskA :: Device where
  "diskA = \<lparr>FullPath = ''/dev/disk/by-id/wwn-0x6000c29'', DeviceName = ''wwn-0x6000c29'',
            RealDev = ''/dev/sdb''\<rparr>"

text \<open>
  A second ledger: one entry whose history is full, one whose history is empty (which
  the ledger never writes).
\<close>

definition taskOf :: "string \<Rightarrow> OperationDetails" where
  "taskOf ident = \<lparr>TaskInvocationTimestamp = 0, TaskID = ident, OpID = [],
                   TaskStatus = ''Success'', Error = []\<rparr>"

definition entryFull :: CnsVolumeOperationRequest where
  "entryFull = \<lparr>SpecName = ''pvc-2'', StatusVolumeID = ''vol-2'', StatusSnapshotID = [],
                StatusCapacity = 2048, FirstOperationDetails = taskOf ''t01'',
                LatestOperationDetails =
                  [taskOf ''t01'', taskOf ''t02'', taskOf ''t03'', taskOf ''t04'', taskOf ''t05'',
                   taskOf ''t06'', taskOf ''t07'', taskOf ''t08'', taskOf ''t09'', taskOf ''t10'']\<rparr>"

definition entryEmpty :: CnsVolumeOperationRequest where
  "entryEmpty = \<lparr>SpecName = ''pvc-3'', StatusVolumeID = ''vol-3'', StatusSnapshotID = [],
                 StatusCapacity = 0, FirstOperationDetails = taskOf [],
                 LatestOperationDetails = []\<rparr>"

definition ledgerB :: k8sclient where
  "ledgerB = \<lparr>objects = [''pvc-2'' \<mapsto> entryFull, ''pvc-3'' \<mapsto> entryEmpty],
              getFails = (\<lambda>n. False), createFails = (\<lambda>n. False),
              updateFails = (\<lambda>n. False)\<rparr>"

definition storeEleventh :: VolumeOperationRequestDetails where
  "storeEleventh = \<lparr>Name = ''pvc-2'', VolumeID = ''vol-2'', SnapshotID = [], Capacity = 2048,
                    OperationDetails = Some (taskOf ''t11'')\<rparr>"

definition storeThirdAgain :: VolumeOperationRequestDetails where
  "storeThirdAgain = \<lparr>Name = ''pvc-2'', VolumeID = ''vol-2'', SnapshotID = [], Capacity = 2048,
                      OperationDetails = Some ((taskOf ''t03'')\<lparr>TaskStatus := ''Error''\<rparr>)\<rparr>"

text \<open>The node with the disk mounted at another pod's path only.\<close>

definition nodeElsewhere :: host where
  "nodeElsewhere = nodeA\<lparr>mounts := [podMount]\<rparr>"

section \<open>Properties of convertUUID\<close>

lemma length_Suc_decompose: "length xs = Suc n \<Longrightarrow> \<exists>y ys. xs = y # ys \<and> length ys = n"
  by (cases xs) auto

lemma length_8_decompose: "length g = 8 \<Longrightarrow> \<exists>a b c d e f u v. g = [a, b, c, d, e, f, u, v]"
  by (auto simp: numeral_eq_Suc dest!: length_Suc_decompose)

lemma length_4_decompose: "length g = 4 \<Longrightarrow> \<exists>a b c d. g = [a, b, c, d]"
  by (auto simp: numeral_eq_Suc dest!: length_Suc_decompose)

lemma convertUUID_groups:
  assumes "length g1 = 8" "length g2 = 4" "length g3 = 4" "length g4 = 4" "length g5 = 12"
  shows "convertUUID L (g1 @ [s1] @ g2 @ [s2] @ g3 @ [s3] @ g4 @ [s4] @ g5) =
     Inr (ToLower L (byteSwap g1 @ ''-'' @ byteSwap g2 @ ''-'' @ byteSwap g3 @ ''-'' @
                     g4 @ ''-'' @ g5))"
proof -
  obtain a b c d e f u v where g1: "g1 = [a, b, c, d, e, f, u, v]"
    using length_8_decompose[OF assms(1)] by blast
  obtain a2 b2 c2 d2 where g2: "g2 = [a2, b2, c2, d2]"
    using length_4_decompose[OF assms(2)] by blast
  obtain a3 b3 c3 d3 where g3: "g3 = [a3, b3, c3, d3]"
    using length_4_decompose[OF assms(3)] by blast
  obtain a4 b4 c4 d4 where g4: "g4 = [a4, b4, c4, d4]"
    using length_4_decompose[OF assms(4)] by blast
  show ?thesis
    using assms(5) by (simp add: g1 g2 g3 g4 convertUUID_def slice_def byteSwap_def)
qed

lemma convertUUID_slices:
  assumes "length uuid = 36"
  shows "convertUUID L uuid =
     Inr (ToLower L (byteSwap (slice uuid 0 8) @ ''-'' @ byteSwap (slice uuid 9 13) @ ''-'' @
                     byteSwap (slice uuid 14 18) @ ''-'' @ slice uuid 19 23 @ ''-'' @
                     slice uuid 24 36))"
proof -
  have u: "uuid = take 8 uuid @ [uuid ! 8] @ take 4 (drop 9 uuid) @ [uuid ! 13] @
      take 4 (drop 14 uuid) @ [uuid ! 18] @ take 4 (drop 19 uuid) @ [uuid ! 23] @ drop 24 uuid"
    (is "uuid = ?g1 @ [?s1] @ ?g2 @ [?s2] @ ?g3 @ [?s3] @ ?g4 @ [?s4] @ ?g5")
  proof -
    have a: "drop n uuid = uuid ! n # drop (Suc n) uuid" if "n < 36" for n
      using that assms by (simp add: Cons_nth_drop_Suc)
    have "uuid = take 8 uuid @ drop 8 uuid" by simp
    also have "drop 8 uuid = uuid ! 8 # drop 9 uuid" using a[of 8] by simp
    also have "drop 9 uuid = take 4 (drop 9 uuid) @ drop 13 uuid"
      using append_take_drop_id[of 4 "drop 9 uuid"] by (simp add: add.commute)
    also have "drop 13 uuid = uuid ! 13 # drop 14 uuid" using a[of 13] by simp
    also have "drop 14 uuid = take 4 (drop 14 uuid) @ drop 18 uuid"
      using append_take_drop_id[of 4 "drop 14 uuid"] by (simp add: add.commute)
    also have "drop 18 uuid = uuid ! 18 # drop 19 uuid" using a[of 18] by simp
    also have "drop 19 uuid = take 4 (drop 19 uuid) @ drop 23 uuid"
      using append_take_drop_id[of 4 "drop 19 uuid"] by (simp add: add.commute)
    also have "drop 23 uuid = uuid ! 23 # drop 24 uuid" using a[of 23] by simp
    finally show ?thesis by simp
  qed
  have l: "length ?g1 = 8" "length ?g2 = 4" "length ?g3 = 4" "length ?g4 = 4" "length ?g5 = 12"
    using assms by simp_all
  have s: "slice uuid 0 8 = ?g1" "slice uuid 9 13 = ?g2" "slice uuid 14 18 = ?g3"
    "slice uuid 19 23 = ?g4" "slice uuid 24 36 = ?g5"
    using assms by (simp_all add: slice_def)
  show ?thesis
    unfolding s
    using convertUUID_groups[OF l, of L ?s1 ?s2 ?s3 ?s4] u by simp
qed

lemma convertUUID_example:
  "convertUUID L ''6B8C2042-0DD1-D037-156F-435F999D94C1'' =
     Inr ''42208c6b-d10d-37d0-156f-435f999d94c1''"
  by code_simp

text \<open>
  C9. \<open>convertUUID\<close> takes a string of 36 bytes, that is five groups of 8, 4, 4, 4 and 12
  bytes with one separator byte between them, reverses the order of the two-digit bytes
  in each of the first three groups, keeps the last two groups, joins the five with
  hyphens and lowercases the result; the UUID of the source's comment converts as the
  comment says; and any string whose length is not 36 gives an error.
\<close>

theorem convertUUID_byte_swap:
  "(length uuid = 36 \<longrightarrow>
      convertUUID L uuid =
        Inr (ToLower L (byteSwap (slice uuid 0 8) @ ''-'' @ byteSwap (slice uuid 9 13) @ ''-'' @
                        byteSwap (slice uuid 14 18) @ ''-'' @ slice uuid 19 23 @ ''-'' @
                        slice uuid 24 36))) \<and>
   (length g1 = 8 \<and> length g2 = 4 \<and> length g3 = 4 \<and> length g4 = 4 \<and> length g5 = 12 \<longrightarrow>
      convertUUID L (g1 @ [s1] @ g2 @ [s2] @ g3 @ [s3] @ g4 @ [s4] @ g5) =
        Inr (ToLower L (byteSwap g1 @ ''-'' @ byteSwap g2 @ ''-'' @ byteSwap g3 @ ''-'' @
                        g4 @ ''-'' @ g5))) \<and>
   convertUUID L ''6B8C2042-0DD1-D037-156F-435F999D94C1'' =
     Inr ''42208c6b-d10d-37d0-156f-435f999d94c1'' \<and>
   (length uuid \<noteq> 36 \<longrightarrow> convertUUID L uuid = Inl GoError)"
proof (intro conjI impI)
  assume "length uuid = 36"
  then show "convertUUID L uuid =
        Inr (ToLower L (byteSwap (slice uuid 0 8) @ ''-'' @ byteSwap (slice uuid 9 13) @ ''-'' @
                        byteSwap (slice uuid 14 18) @ ''-'' @ slice uuid 19 23 @ ''-'' @
                        slice uuid 24 36))"
    by (rule convertUUID_slices)
next
  assume "length g1 = 8 \<and> length g2 = 4 \<and> length g3 = 4 \<and> length g4 = 4 \<and> length g5 = 12"
  then show "convertUUID L (g1 @ [s1] @ g2 @ [s2] @ g3 @ [s3] @ g4 @ [s4] @ g5) =
        Inr (ToLower L (byteSwap g1 @ ''-'' @ byteSwap g2 @ ''-'' @ byteSwap g3 @ ''-'' @
                        g4 @ ''-'' @ g5))"
    by (elim conjE) (rule convertUUID_groups)
next
  show "convertUUID L ''6B8C2042-0DD1-D037-156F-435F999D94C1'' =
     Inr ''42208c6b-d10d-37d0-156f-435f999d94c1''"
    by (rule convertUUID_example)
next
  assume "length uuid \<noteq> 36"
  then show "convertUUID L uuid = Inl GoError"
    by (simp add: convertUUID_def)
qed

theorem convertUUID_byte_swap_witness:
  "convertUUID id ''FFEEDDCC-BBAA-9988-7766-554433221100'' =
     Inr (ToLower id (byteSwap ''FFEEDDCC'' @ ''-'' @ byteSwap ''BBAA'' @ ''-'' @
                      byteSwap ''9988'' @ ''-'' @ ''7766'' @ ''-'' @ ''554433221100'')) \<and>
   convertUUID id ''6B8C2042'' = Inl GoError"
  using convertUUID_byte_swap[of "''FFEEDDCC-BBAA-9988-7766-554433221100''" id
      "''FFEEDDCC''" "''BBAA''" "''9988''" "''7766''" "''554433221100''"
      "CHR ''-''" "CHR ''-''" "CHR ''-''" "CHR ''-''"]
    convertUUID_byte_swap[of "''6B8C2042''" id
      "''FFEEDDCC''" "''BBAA''" "''9988''" "''7766''" "''554433221100''"
      "CHR ''-''" "CHR ''-''" "CHR ''-''" "CHR ''-''"]
  by (simp add: slice_def)

section \<open>Properties of the ledger\<close>

lemma updateExisting_none:
  "\<forall>i<n. TaskID (latest ! i) \<noteq> TaskID d \<Longrightarrow> updateExisting latest d n upd = (False, upd)"
  by (induction n) auto

lemma updateExisting_some:
  "\<exists>i<n. TaskID (latest ! i) = TaskID d \<Longrightarrow>
   \<exists>i<n. TaskID (latest ! i) = TaskID d \<and>
         (\<forall>j. i < j \<and> j < n \<longrightarrow> TaskID (latest ! j) \<noteq> TaskID d) \<and>
         updateExisting latest d n upd = (True, upd[i := d])"
proof (induction n)
  case 0
  then show ?case by simp
next
  case (Suc n)
  show ?case
  proof (cases "TaskID d = TaskID (latest ! n)")
    case True
    then show ?thesis by (intro exI[of _ n]) auto
  next
    case False
    with Suc.prems have "\<exists>i<n. TaskID (latest ! i) = TaskID d"
      by (metis less_Suc_eq)
    from Suc.IH[OF this] obtain i where i: "i < n" "TaskID (latest ! i) = TaskID d"
      "\<forall>j. i < j \<and> j < n \<longrightarrow> TaskID (latest ! j) \<noteq> TaskID d"
      "updateExisting latest d n upd = (True, upd[i := d])" by blast
    show ?thesis
      using i False by (intro exI[of _ i]) (auto simp: less_Suc_eq)
  qed
qed

lemma convert_TaskID: "TaskID (convertToCnsVolumeOperationRequestDetails d) = TaskID d"
  by (simp add: convertToCnsVolumeOperationRequestDetails_def)

lemma updatedInstance_fresh:
  assumes "\<forall>x\<in>set (LatestOperationDetails inst). TaskID x \<noteq> TaskID d"
  shows "LatestOperationDetails (updatedInstance inst op details d) =
     (if length (LatestOperationDetails inst) < maxEntriesInLatestOperationDetails
      then LatestOperationDetails inst @ [d]
      else drop 1 (LatestOperationDetails inst @ [d]))"
proof -
  have "\<forall>i<length (LatestOperationDetails inst). TaskID (LatestOperationDetails inst ! i) \<noteq> TaskID d"
    using assms by simp
  from updateExisting_none[OF this]
  show ?thesis
    by (auto simp: updatedInstance_def Let_def)
qed

lemma updatedInstance_known:
  assumes "\<exists>x\<in>set (LatestOperationDetails inst). TaskID x = TaskID d"
  shows "\<exists>i<length (LatestOperationDetails inst).
           TaskID (LatestOperationDetails inst ! i) = TaskID d \<and>
           (\<forall>j. i < j \<and> j < length (LatestOperationDetails inst) \<longrightarrow>
                TaskID (LatestOperationDetails inst ! j) \<noteq> TaskID d) \<and>
           LatestOperationDetails (updatedInstance inst op details d) =
             (LatestOperationDetails inst)[i := d]"
proof -
  have "\<exists>i<length (LatestOperationDetails inst). TaskID (LatestOperationDetails inst ! i) = TaskID d"
    using assms by (auto simp: in_set_conv_nth)
  from updateExisting_some[OF this, of "LatestOperationDetails inst"]
  obtain i where i: "i < length (LatestOperationDetails inst)"
     "TaskID (LatestOperationDetails inst ! i) = TaskID d"
     "\<forall>j. i < j \<and> j < length (LatestOperationDetails inst) \<longrightarrow>
                TaskID (LatestOperationDetails inst ! j) \<noteq> TaskID d"
     "updateExisting (LatestOperationDetails inst) d (length (LatestOperationDetails inst))
        (LatestOperationDetails inst) = (True, (LatestOperationDetails inst)[i := d])"
    by blast
  show ?thesis
    using i by (intro exI[of _ i]) (auto simp: updatedInstance_def Let_def)
qed

lemma StoreRequestDetails_existing:
  assumes "k8sGet c (Name op) = Inr inst" "\<not> updateFails c (Name op)"
    "OperationDetails op = Some details"
  shows "StoreRequestDetails c (Some op) =
     (Inr (), c\<lparr>objects := (objects c)(Name op \<mapsto>
        updatedInstance inst op details (convertToCnsVolumeOperationRequestDetails details))\<rparr>)"
  using assms
  by (auto simp: StoreRequestDetails_def k8sUpdate_def k8sGet_def Let_def
      split: if_splits option.splits)

text \<open>
  The first call for a name creates the entry with a history of one operation, and no
  call makes a history empty or longer than the bound.
\<close>

lemma StoreRequestDetails_new:
  assumes "k8sGet c (Name op) = Inl ApiNotFound" "\<not> createFails c (Name op)"
    "OperationDetails op = Some details"
  shows "\<exists>inst. StoreRequestDetails c (Some op) =
            (Inr (), c\<lparr>objects := (objects c)(Name op \<mapsto> inst)\<rparr>) \<and>
          LatestOperationDetails inst = [convertToCnsVolumeOperationRequestDetails details]"
  using assms
  by (auto simp: StoreRequestDetails_def k8sCreate_def k8sGet_def Let_def
      split: if_splits option.splits)

lemma updatedInstance_length:
  assumes "1 \<le> length (LatestOperationDetails inst)"
     "length (LatestOperationDetails inst) \<le> maxEntriesInLatestOperationDetails"
  shows "1 \<le> length (LatestOperationDetails (updatedInstance inst op details d)) \<and>
      length (LatestOperationDetails (updatedInstance inst op details d))
        \<le> maxEntriesInLatestOperationDetails"
proof (cases "\<forall>x\<in>set (LatestOperationDetails inst). TaskID x \<noteq> TaskID d")
  case True
  from updatedInstance_fresh[OF True, of op details] assms show ?thesis
    by (auto split: if_splits)
next
  case False
  then have "\<exists>x\<in>set (LatestOperationDetails inst). TaskID x = TaskID d" by blast
  from updatedInstance_known[OF this, of op details] assms show ?thesis by auto
qed

lemma StoreRequestDetails_bounds:
  assumes inv: "\<forall>name inst. objects c name = Some inst \<longrightarrow>
            1 \<le> length (LatestOperationDetails inst) \<and>
            length (LatestOperationDetails inst) \<le> maxEntriesInLatestOperationDetails"
    and store: "StoreRequestDetails c r = (res, c')"
    and c': "objects c' name = Some inst"
  shows "1 \<le> length (LatestOperationDetails inst) \<and>
         length (LatestOperationDetails inst) \<le> maxEntriesInLatestOperationDetails"
proof (cases r)
  case None
  with store have "c' = c" by (simp add: StoreRequestDetails_def)
  with inv c' show ?thesis by blast
next
  case (Some op)
  note r = this
  show ?thesis
  proof (cases "OperationDetails op")
    case None
    with store r have "c' = c" by (simp add: StoreRequestDetails_def)
    with inv c' show ?thesis by blast
  next
    case (Some details)
    show ?thesis
    proof (cases "k8sGet c (Name op)")
      case (Inl err)
      with store r Some inv c' show ?thesis
        by (auto simp: StoreRequestDetails_def Let_def k8sCreate_def
              maxEntriesInLatestOperationDetails_def split: if_splits)
    next
      case (Inr old)
      then have "objects c (Name op) = Some old"
        by (auto simp: k8sGet_def split: if_splits option.splits)
      with inv have "1 \<le> length (LatestOperationDetails old)"
        "length (LatestOperationDetails old) \<le> maxEntriesInLatestOperationDetails"
        by blast+
      from updatedInstance_length[OF this] store Inr r Some inv c' show ?thesis
        by (auto simp: StoreRequestDetails_def Let_def k8sUpdate_def split: if_splits)
    qed
  qed
qed

text \<open>
  C4. A call of \<open>StoreRequestDetails\<close> for a name whose entry exists, when the server
  accepts the update, stores an entry whose list of latest operations is: the old list
  with the operation appended at its end, less its first element when that makes more
  than 10, if no element of the old list has the task identifier of the operation; the
  old list with the last element of that task identifier replaced by the operation, at
  the same length, if there is one. A list of at most 10 elements stays at most 10
  long, and every list the ledger holds is one (\<open>StoreRequestDetails_bounds\<close>).
\<close>

theorem StoreRequestDetails_latest:
  assumes "k8sGet c (Name op) = Inr inst" and "\<not> updateFails c (Name op)"
    and "OperationDetails op = Some details"
  shows "\<exists>inst'.
     StoreRequestDetails c (Some op) =
       (Inr (), c\<lparr>objects := (objects c)(Name op \<mapsto> inst')\<rparr>) \<and>
     ((\<forall>x\<in>set (LatestOperationDetails inst). TaskID x \<noteq> TaskID details) \<longrightarrow>
        LatestOperationDetails inst' =
          (if length (LatestOperationDetails inst) < maxEntriesInLatestOperationDetails
           then LatestOperationDetails inst @ [convertToCnsVolumeOperationRequestDetails details]
           else drop 1 (LatestOperationDetails inst @
                          [convertToCnsVolumeOperationRequestDetails details]))) \<and>
     ((\<exists>x\<in>set (LatestOperationDetails inst). TaskID x = TaskID details) \<longrightarrow>
        (\<exists>i<length (LatestOperationDetails inst).
           TaskID (LatestOperationDetails inst ! i) = TaskID details \<and>
           (\<forall>j. i < j \<and> j < length (LatestOperationDetails inst) \<longrightarrow>
                TaskID (LatestOperationDetails inst ! j) \<noteq> TaskID details) \<and>
           LatestOperationDetails inst' =
             (LatestOperationDetails inst)[i := convertToCnsVolumeOperationRequestDetails details]) \<and>
        length (LatestOperationDetails inst') = length (LatestOperationDetails inst)) \<and>
     (length (LatestOperationDetails inst) \<le> maxEntriesInLatestOperationDetails \<longrightarrow>
        length (LatestOperationDetails inst') \<le> maxEntriesInLatestOperationDetails)"
proof -
  let ?d = "convertToCnsVolumeOperationRequestDetails details"
  let ?i = "updatedInstance inst op details ?d"
  let ?l = "LatestOperationDetails inst"
  have fresh: "(\<forall>x\<in>set ?l. TaskID x \<noteq> TaskID details) \<Longrightarrow>
        LatestOperationDetails ?i =
          (if length ?l < maxEntriesInLatestOperationDetails then ?l @ [?d]
           else drop 1 (?l @ [?d]))"
    using updatedInstance_fresh[of inst "?d" op details] by (simp add: convert_TaskID)
  have known: "(\<exists>x\<in>set ?l. TaskID x = TaskID details) \<Longrightarrow>
        (\<exists>i<length ?l. TaskID (?l ! i) = TaskID details \<and>
           (\<forall>j. i < j \<and> j < length ?l \<longrightarrow> TaskID (?l ! j) \<noteq> TaskID details) \<and>
           LatestOperationDetails ?i = ?l[i := ?d])"
    using updatedInstance_known[of inst "?d" op details] by (simp add: convert_TaskID)
  have same: "(\<exists>x\<in>set ?l. TaskID x = TaskID details) \<Longrightarrow>
        length (LatestOperationDetails ?i) = length ?l"
    using known by force
  have len: "length ?l \<le> maxEntriesInLatestOperationDetails \<Longrightarrow>
        length (LatestOperationDetails ?i) \<le> maxEntriesInLatestOperationDetails"
  proof (cases "\<forall>x\<in>set ?l. TaskID x \<noteq> TaskID details")
    case True
    assume "length ?l \<le> maxEntriesInLatestOperationDetails"
    with fresh[OF True] show ?thesis by (auto split: if_splits)
  next
    case False
    assume b: "length ?l \<le> maxEntriesInLatestOperationDetails"
    from False have "\<exists>x\<in>set ?l. TaskID x = TaskID details" by blast
    from same[OF this] b show ?thesis by simp
  qed
  show ?thesis
    apply (rule exI[of _ ?i])
    apply (intro conjI impI)
        apply (rule StoreRequestDetails_existing[OF assms(1-3)])
       apply (erule fresh)
      apply (erule known)
     apply (erule same)
    apply (erule len)
    done
qed

theorem StoreRequestDetails_latest_witness:
  "(\<exists>inst'. StoreRequestDetails ledgerA (Some storeB) =
              (Inr (), ledgerA\<lparr>objects := (objects ledgerA)(Name storeB \<mapsto> inst')\<rparr>) \<and>
           LatestOperationDetails inst' = [taskA, taskB]) \<and>
   (\<exists>inst'. StoreRequestDetails ledgerB (Some storeEleventh) =
              (Inr (), ledgerB\<lparr>objects := (objects ledgerB)(Name storeEleventh \<mapsto> inst')\<rparr>) \<and>
           LatestOperationDetails inst' =
             [taskOf ''t02'', taskOf ''t03'', taskOf ''t04'', taskOf ''t05'', taskOf ''t06'',
              taskOf ''t07'', taskOf ''t08'', taskOf ''t09'', taskOf ''t10'', taskOf ''t11'']) \<and>
   (\<exists>inst'. StoreRequestDetails ledgerB (Some storeThirdAgain) =
              (Inr (), ledgerB\<lparr>objects := (objects ledgerB)(Name storeThirdAgain \<mapsto> inst')\<rparr>) \<and>
           length (LatestOperationDetails inst') = 10 \<and>
           map TaskID (LatestOperationDetails inst') =
             [''t01'', ''t02'', ''t03'', ''t04'', ''t05'', ''t06'', ''t07'', ''t08'', ''t09'', ''t10''])"
proof -
  have h1: "k8sGet ledgerA (Name storeB) = Inr entryA"
    "k8sGet ledgerB (Name storeEleventh) = Inr entryFull"
    "k8sGet ledgerB (Name storeThirdAgain) = Inr entryFull"
    by (simp_all add: k8sGet_def ledgerA_def ledgerB_def storeB_def storeEleventh_def
        storeThirdAgain_def)
  have h2: "\<not> updateFails ledgerA (Name storeB)" "\<not> updateFails ledgerB (Name storeEleventh)"
    "\<not> updateFails ledgerB (Name storeThirdAgain)"
    by (simp_all add: ledgerA_def ledgerB_def)
  have h3: "OperationDetails storeB = Some taskB"
    "OperationDetails storeEleventh = Some (taskOf ''t11'')"
    "OperationDetails storeThirdAgain = Some ((taskOf ''t03'')\<lparr>TaskStatus := ''Error''\<rparr>)"
    by (simp_all add: storeB_def storeEleventh_def storeThirdAgain_def)
  have fresh: "\<forall>x\<in>set (LatestOperationDetails entryA). TaskID x \<noteq> TaskID taskB"
    "\<forall>x\<in>set (LatestOperationDetails entryFull). TaskID x \<noteq> TaskID (taskOf ''t11'')"
    by (simp_all add: entryA_def entryFull_def taskA_def taskB_def taskOf_def)
  have known: "\<exists>x\<in>set (LatestOperationDetails entryFull).
       TaskID x = TaskID ((taskOf ''t03'')\<lparr>TaskStatus := ''Error''\<rparr>)"
    by (simp add: entryFull_def taskOf_def)
  from StoreRequestDetails_latest[OF h1(1) h2(1) h3(1)] fresh(1)
  have a: "\<exists>inst'. StoreRequestDetails ledgerA (Some storeB) =
              (Inr (), ledgerA\<lparr>objects := (objects ledgerA)(Name storeB \<mapsto> inst')\<rparr>) \<and>
           LatestOperationDetails inst' = [taskA, taskB]"
    by (auto simp: entryA_def taskB_def maxEntriesInLatestOperationDetails_def
        convertToCnsVolumeOperationRequestDetails_def)
  from StoreRequestDetails_latest[OF h1(2) h2(2) h3(2)] fresh(2)
  have b: "\<exists>inst'. StoreRequestDetails ledgerB (Some storeEleventh) =
              (Inr (), ledgerB\<lparr>objects := (objects ledgerB)(Name storeEleventh \<mapsto> inst')\<rparr>) \<and>
           LatestOperationDetails inst' =
             [taskOf ''t02'', taskOf ''t03'', taskOf ''t04'', taskOf ''t05'', taskOf ''t06'',
              taskOf ''t07'', taskOf ''t08'', taskOf ''t09'', taskOf ''t10'', taskOf ''t11'']"
    by (auto simp: entryFull_def taskOf_def maxEntriesInLatestOperationDetails_def
        convertToCnsVolumeOperationRequestDetails_def)
  from StoreRequestDetails_latest[OF h1(3) h2(3) h3(3)] known
  obtain inst' i where c1: "StoreRequestDetails ledgerB (Some storeThirdAgain) =
              (Inr (), ledgerB\<lparr>objects := (objects ledgerB)(Name storeThirdAgain \<mapsto> inst')\<rparr>)"
    and c2: "i < length (LatestOperationDetails entryFull)"
      "TaskID (LatestOperationDetails entryFull ! i) =
         TaskID ((taskOf ''t03'')\<lparr>TaskStatus := ''Error''\<rparr>)"
      "LatestOperationDetails inst' = (LatestOperationDetails entryFull)
         [i := convertToCnsVolumeOperationRequestDetails ((taskOf ''t03'')\<lparr>TaskStatus := ''Error''\<rparr>)]"
    by blast
  have mm: "map TaskID (LatestOperationDetails inst') = map TaskID (LatestOperationDetails entryFull)"
    using c2 by (simp add: map_update convert_TaskID list_update_same_conv)
  have ll: "length (LatestOperationDetails inst') = length (LatestOperationDetails entryFull)"
    using c2(3) by simp
  have v: "length (LatestOperationDetails entryFull) = 10"
    "map TaskID (LatestOperationDetails entryFull) =
       [''t01'', ''t02'', ''t03'', ''t04'', ''t05'', ''t06'', ''t07'', ''t08'', ''t09'', ''t10'']"
    by (simp_all add: entryFull_def taskOf_def)
  from mm ll v have c3: "length (LatestOperationDetails inst') = 10 \<and>
           map TaskID (LatestOperationDetails inst') =
             [''t01'', ''t02'', ''t03'', ''t04'', ''t05'', ''t06'', ''t07'', ''t08'', ''t09'', ''t10'']"
    by simp
  from c1 c3 have c: "\<exists>inst'. StoreRequestDetails ledgerB (Some storeThirdAgain) =
              (Inr (), ledgerB\<lparr>objects := (objects ledgerB)(Name storeThirdAgain \<mapsto> inst')\<rparr>) \<and>
           length (LatestOperationDetails inst') = 10 \<and>
           map TaskID (LatestOperationDetails inst') =
             [''t01'', ''t02'', ''t03'', ''t04'', ''t05'', ''t06'', ''t07'', ''t08'', ''t09'', ''t10'']"
    by (intro exI[of _ inst'] conjI) simp_all
  show ?thesis by (intro conjI a b c)
qed

text \<open>
  C8. For an entry that exists and can be read, \<open>GetRequestDetails\<close> returns an error
  when the list of latest operations is empty, and otherwise the name, volume and
  snapshot identifiers and capacity of the entry together with one operation, the last
  element of the list.
\<close>

theorem GetRequestDetails_latest_only:
  assumes "k8sGet c name = Inr inst"
  shows "GetRequestDetails c name =
     (if LatestOperationDetails inst = [] then Inl GoError
      else Inr \<lparr>Name = SpecName inst, VolumeID = StatusVolumeID inst,
               SnapshotID = StatusSnapshotID inst, Capacity = StatusCapacity inst,
               OperationDetails = Some (last (LatestOperationDetails inst))\<rparr>)"
  using assms
  by (simp add: GetRequestDetails_def CreateVolumeOperationRequestDetails_def Let_def
      last_conv_nth)

theorem GetRequestDetails_latest_only_witness:
  "GetRequestDetails ledgerA ''pvc-1'' =
     Inr \<lparr>Name = ''pvc-1'', VolumeID = ''vol-1'', SnapshotID = [], Capacity = 1024,
          OperationDetails = Some taskA\<rparr> \<and>
   GetRequestDetails ledgerB ''pvc-2'' =
     Inr \<lparr>Name = ''pvc-2'', VolumeID = ''vol-2'', SnapshotID = [], Capacity = 2048,
          OperationDetails = Some (taskOf ''t10'')\<rparr> \<and>
   GetRequestDetails ledgerB ''pvc-3'' = Inl GoError"
proof -
  have h: "k8sGet ledgerA ''pvc-1'' = Inr entryA" "k8sGet ledgerB ''pvc-2'' = Inr entryFull"
    "k8sGet ledgerB ''pvc-3'' = Inr entryEmpty"
    by (simp_all add: k8sGet_def ledgerA_def ledgerB_def)
  from GetRequestDetails_latest_only[OF h(1)] GetRequestDetails_latest_only[OF h(2)]
    GetRequestDetails_latest_only[OF h(3)]
  show ?thesis
    by (simp add: entryA_def entryFull_def entryEmpty_def)
qed

section \<open>Properties of the node service\<close>

subsection \<open>Facts about the helpers and the example node\<close>



lemma NodeStageVolume_mount_reaches:
  assumes "\<not> IsFileVolumeRequest (VolumeCapability req)"
    and "AccessType (VolumeCapability req) = MountAccess fstype flags"
    and "verifyTargetDir h (StagingTargetPath req) True = Inr ok"
  shows "NodeStageVolume h req =
     nodeStageBlockVolume h req
       \<lparr>volID = VolumeId req, fsType = GetVolumeCapabilityFsType (VolumeCapability req),
        stagingTarget = StagingTargetPath req, mntFlags = flags,
        ro = IsVolumeReadOnly (VolumeCapability req)\<rparr>"
  using assms by (simp add: NodeStageVolume_def ensureMountVol_def Let_def)

lemma NodePublishVolume_reaches:
  assumes "StagingTargetPath req \<noteq> []"
    and "\<not> IsFileVolumeRequest (VolumeCapability req)"
    and "getDiskID (PublishContext req) = Inr dID"
    and "verifyVolumeAttached h dID = Inr volPath"
    and "getDevice h volPath = Inr dev"
  shows "NodePublishVolume h req =
     (if AccessType (VolumeCapability req) = BlockAccess
      then publishBlockVol h req dev
             \<lparr>volID' = VolumeId req, target = TargetPath req,
              stagingTarget' = StagingTargetPath req, diskID = dID,
              volumePath = FullPath dev, device = RealDev dev, ro' = Readonly req\<rparr>
      else publishMountVol h req dev
             \<lparr>volID' = VolumeId req, target = TargetPath req,
              stagingTarget' = StagingTargetPath req, diskID = dID,
              volumePath = FullPath dev, device = RealDev dev, ro' = Readonly req\<rparr>)"
  using assms by (simp add: NodePublishVolume_def Let_def)

lemma publishBlockVol_ro:
  "ro' params \<Longrightarrow>
   publishBlockVol h req dev params =
     (case mkfile h (target params) of
        (Inl Panic, h1) \<Rightarrow> (Inl Panic, h1)
      | (Inl err, h1) \<Rightarrow> (Inl (Status Internal), h1)
      | (Inr created, h1) \<Rightarrow> (Inl (Status InvalidArgument), h1))"
  by (simp add: publishBlockVol_def split: prod.splits sum.splits error.splits)






lemma devFromMounts_none:
  "\<forall>m\<in>set mnts. Path m \<noteq> tgt \<Longrightarrow> devFromMounts h mnts tgt = Inr None"
  by (induction mnts) auto

lemma IsTargetInMounts_iff: "IsTargetInMounts tgt mnts \<longleftrightarrow> (\<exists>m\<in>set mnts. Path m = tgt)"
  by (induction mnts) auto

lemma run_fails: "fails (snd (run call h)) = fails h"
  by (simp add: run_def effect_def Let_def split: oscall.splits)

lemma run_trace: "trace (snd (run call h)) = trace h @ [call]"
  by (simp add: run_def effect_def Let_def split: oscall.splits)

lemmas example_defs = nodeA_def nodeStaged_def nodeTwoMounts_def nodeDirAtTarget_def
  nodeElsewhere_def
  nodeLeftover_def capMount_def capBlock_def reqMount_def reqBlock_def reqBlockReadOnly_def
  reqMountReadOnly_def stagedMount_def podMount_def nodeFiles_def nodeLinks_def
  exampleKernel_def kernelOpts_def diskA_def

lemmas node_defs = getDevMounts_def getDiskID_def ensureMountVol_def rmpath_def mkfile_def
  mkdir_def verifyTargetDir_def verifyVolumeAttached_def getDiskPath_def getDevice_def
  GetDevMounts_def GetMounts_def run_def effect_def devDiskID_def blockPrefix_def
  AttributeFirstClassDiskUUID_def basename_def

lemma ex_disk: "getDiskID (PublishContext reqMount) = Inr ''6000c29''"
  "getDiskID (PublishContext reqBlock) = Inr ''6000c29''"
  "getDiskID (PublishContext reqBlockReadOnly) = Inr ''6000c29''"
  by (simp_all add: example_defs node_defs)

lemma ex_attached:
  "verifyVolumeAttached nodeA ''6000c29'' = Inr ''/dev/disk/by-id/wwn-0x6000c29''"
  "verifyVolumeAttached nodeStaged ''6000c29'' = Inr ''/dev/disk/by-id/wwn-0x6000c29''"
  "verifyVolumeAttached nodeTwoMounts ''6000c29'' = Inr ''/dev/disk/by-id/wwn-0x6000c29''"
  by (simp_all add: example_defs node_defs)

lemma ex_device:
  "getDevice nodeA ''/dev/disk/by-id/wwn-0x6000c29'' = Inr diskA"
  "getDevice nodeStaged ''/dev/disk/by-id/wwn-0x6000c29'' = Inr diskA"
  "getDevice nodeTwoMounts ''/dev/disk/by-id/wwn-0x6000c29'' = Inr diskA"
  by (simp_all add: example_defs node_defs)


lemma ex_values:
  "FullPath diskA = ''/dev/disk/by-id/wwn-0x6000c29''"
  "RealDev diskA = ''/dev/sdb''"
  "StagingTargetPath reqMount = ''/staging''"
  "StagingTargetPath reqMountReadOnly = ''/staging''"
  "StagingTargetPath reqBlock = ''/staging''"
  "StagingTargetPath reqBlockReadOnly = ''/staging''"
  "TargetPath reqMount = ''/pods/b''"
  "TargetPath reqBlock = ''/pods/b''"
  "TargetPath reqBlockReadOnly = ''/pods/b''"
  "GetVolumeCapabilityFsType (VolumeCapability reqMount) = ''ext4''"
  "GetVolumeCapabilityFsType (VolumeCapability reqMountReadOnly) = ''ext4''"
  by (simp_all add: example_defs)

lemma ex_quiet: "\<not> fails nodeA call" "trace nodeA = []" "\<not> fails nodeStaged call"
  "\<not> fails nodeTwoMounts call"
  by (simp_all add: example_defs)

lemma ex_block:
  "StagingTargetPath reqBlock \<noteq> []" "\<not> IsFileVolumeRequest (VolumeCapability reqBlock)"
  "AccessType (VolumeCapability reqBlock) = BlockAccess" "\<not> Readonly reqBlock"
  "StagingTargetPath reqBlockReadOnly \<noteq> []"
  "\<not> IsFileVolumeRequest (VolumeCapability reqBlockReadOnly)"
  "AccessType (VolumeCapability reqBlockReadOnly) = BlockAccess" "Readonly reqBlockReadOnly"
  "getDiskID (PublishContext reqBlockReadOnly) = Inr ''6000c29''"
  by (simp_all add: example_defs node_defs)

lemma ex_mount:
  "StagingTargetPath reqMount \<noteq> []" "\<not> IsFileVolumeRequest (VolumeCapability reqMount)"
  "AccessType (VolumeCapability reqMount) = MountAccess ''ext4'' [''noatime'']"
  "\<not> Readonly reqMount"
  by (simp_all add: example_defs)

lemma ex_mkfile:
  "mkfile nodeA (TargetPath reqBlock) = (Inr True, snd (run (OpenFile ''/pods/b'') nodeA))"
  "mkfile nodeStaged (TargetPath reqBlock) =
     (Inr True, snd (run (OpenFile ''/pods/b'') nodeStaged))"
  "mkfile nodeTwoMounts (TargetPath reqBlock) =
     (Inr True, snd (run (OpenFile ''/pods/b'') nodeTwoMounts))"
  "mkfile nodeA (TargetPath reqBlockReadOnly) =
     (Inr True, snd (run (OpenFile ''/pods/b'') nodeA))"
  by (simp_all add: example_defs mkfile_def run_def)

lemma ex_mkdir:
  "mkdir nodeTwoMounts (TargetPath reqMount) =
     (Inr True, snd (run (Mkdir ''/pods/b'') nodeTwoMounts))"
  by (simp_all add: example_defs mkdir_def run_def)

lemma ex_devMounts:
  "getDevMounts (snd (run (OpenFile ''/pods/b'') nodeA)) diskA = Inr []"
  "getDevMounts (snd (run (OpenFile ''/pods/b'') nodeStaged)) diskA = Inr [stagedMount]"
  "getDevMounts (snd (run (OpenFile ''/pods/b'') nodeTwoMounts)) diskA = Inr [stagedMount, podMount]"
  "getDevMounts (snd (run (Mkdir ''/pods/b'') nodeTwoMounts)) diskA = Inr [stagedMount, podMount]"
  by (simp_all add: example_defs getDevMounts_def GetMounts_def run_def effect_def)

lemma ex_paths:
  "Path stagedMount \<noteq> TargetPath reqBlock" "Path podMount \<noteq> TargetPath reqBlock"
  "Path stagedMount \<noteq> TargetPath reqMount" "Path podMount \<noteq> TargetPath reqMount"
  by (simp_all add: example_defs)

lemma ex_after:
  "\<not> fails (snd (run call' nodeA)) call" "\<not> fails (snd (run call' nodeTwoMounts)) call"
  "trace (snd (run call' nodeA)) = [call']"
  by (simp_all add: run_fails run_trace ex_quiet)

subsection \<open>Stage of a device that is not mounted\<close>

text \<open>
  C3. A Stage of a mount-capability volume that passes the checks before the mount
  table is read (the staging target is a directory, the disk is attached and resolves to
  a device) and finds no mount of the device issues exactly one command. With the
  read-only flag it is \<open>Mount\<close> of the device's full path at the staging target, with
  the filesystem type of the capability and its mount flags followed by \<open>ro\<close>, and
  nothing is formatted; without the flag it is \<open>FormatAndMount\<close> with the filesystem
  type and the mount flags of the capability as they are. The call succeeds when the
  command does and fails with Internal when it does not.
\<close>

theorem stage_fresh_device:
  assumes "\<not> IsFileVolumeRequest (VolumeCapability req)"
    and "AccessType (VolumeCapability req) = MountAccess fstype flags"
    and "verifyTargetDir h (StagingTargetPath req) True = Inr ok"
    and "getDiskID (PublishContext req) = Inr dID"
    and "verifyVolumeAttached h dID = Inr volPath"
    and "getDevice h volPath = Inr dev"
    and "GetDevMounts h (RealDev dev) = Inr []"
  shows "(IsVolumeReadOnly (VolumeCapability req) \<longrightarrow>
            NodeStageVolume h req =
              (if fails h (Mount (FullPath dev) (StagingTargetPath req)
                             (GetVolumeCapabilityFsType (VolumeCapability req)) (flags @ [''ro'']))
               then Inl (Status Internal) else Inr (),
               snd (run (Mount (FullPath dev) (StagingTargetPath req)
                             (GetVolumeCapabilityFsType (VolumeCapability req)) (flags @ [''ro''])) h)) \<and>
            trace (snd (NodeStageVolume h req)) =
              trace h @ [Mount (FullPath dev) (StagingTargetPath req)
                             (GetVolumeCapabilityFsType (VolumeCapability req)) (flags @ [''ro''])]) \<and>
         (\<not> IsVolumeReadOnly (VolumeCapability req) \<longrightarrow>
            NodeStageVolume h req =
              (if fails h (FormatAndMount (FullPath dev) (StagingTargetPath req)
                             (GetVolumeCapabilityFsType (VolumeCapability req)) flags)
               then Inl (Status Internal) else Inr (),
               snd (run (FormatAndMount (FullPath dev) (StagingTargetPath req)
                             (GetVolumeCapabilityFsType (VolumeCapability req)) flags) h)) \<and>
            trace (snd (NodeStageVolume h req)) =
              trace h @ [FormatAndMount (FullPath dev) (StagingTargetPath req)
                             (GetVolumeCapabilityFsType (VolumeCapability req)) flags])"
  unfolding NodeStageVolume_mount_reaches[OF assms(1-3)]
  using assms(2,4-7)
  by (simp add: nodeStageBlockVolume_def run_def effect_def Let_def)

theorem stage_fresh_device_witness:
  "NodeStageVolume nodeA reqMount =
     (Inr (), snd (run (FormatAndMount ''/dev/disk/by-id/wwn-0x6000c29'' ''/staging'' ''ext4''
                          [''noatime'']) nodeA)) \<and>
   trace (snd (NodeStageVolume nodeA reqMount)) =
     [FormatAndMount ''/dev/disk/by-id/wwn-0x6000c29'' ''/staging'' ''ext4'' [''noatime'']] \<and>
   NodeStageVolume nodeA reqMountReadOnly =
     (Inr (), snd (run (Mount ''/dev/disk/by-id/wwn-0x6000c29'' ''/staging'' ''ext4''
                          [''noatime'', ''ro'']) nodeA)) \<and>
   trace (snd (NodeStageVolume nodeA reqMountReadOnly)) =
     [Mount ''/dev/disk/by-id/wwn-0x6000c29'' ''/staging'' ''ext4'' [''noatime'', ''ro'']]"
proof -
  have h1: "\<not> IsFileVolumeRequest (VolumeCapability reqMount)"
    "\<not> IsFileVolumeRequest (VolumeCapability reqMountReadOnly)"
    by (simp_all add: example_defs)
  have h2: "AccessType (VolumeCapability reqMount) = MountAccess ''ext4'' [''noatime'']"
    "AccessType (VolumeCapability reqMountReadOnly) = MountAccess ''ext4'' [''noatime'']"
    by (simp_all add: example_defs)
  have h3: "verifyTargetDir nodeA (StagingTargetPath reqMount) True = Inr True"
    "verifyTargetDir nodeA (StagingTargetPath reqMountReadOnly) True = Inr True"
    by (simp_all add: example_defs node_defs)
  have h7: "GetDevMounts nodeA (RealDev diskA) = Inr []"
    by (simp add: example_defs node_defs)
  have rw: "\<not> IsVolumeReadOnly (VolumeCapability reqMount)"
    and ro: "IsVolumeReadOnly (VolumeCapability reqMountReadOnly)"
    by (simp_all add: example_defs)
  have "PublishContext reqMountReadOnly = PublishContext reqMount"
    by (simp add: example_defs)
  with ex_disk(1) have d: "getDiskID (PublishContext reqMountReadOnly) = Inr ''6000c29''"
    by simp
  note a = stage_fresh_device[OF h1(1) h2(1) h3(1) ex_disk(1) ex_attached(1) ex_device(1) h7]
  note b = stage_fresh_device[OF h1(2) h2(2) h3(2) d ex_attached(1) ex_device(1) h7]
  from a rw have a': "NodeStageVolume nodeA reqMount =
     (Inr (), snd (run (FormatAndMount ''/dev/disk/by-id/wwn-0x6000c29'' ''/staging'' ''ext4''
                          [''noatime'']) nodeA)) \<and>
   trace (snd (NodeStageVolume nodeA reqMount)) =
     [FormatAndMount ''/dev/disk/by-id/wwn-0x6000c29'' ''/staging'' ''ext4'' [''noatime'']]"
    by (simp (no_asm_use) only: ex_values ex_quiet if_False append_Nil simp_thms) blast
  from b ro have b': "NodeStageVolume nodeA reqMountReadOnly =
     (Inr (), snd (run (Mount ''/dev/disk/by-id/wwn-0x6000c29'' ''/staging'' ''ext4''
                          [''noatime'', ''ro'']) nodeA)) \<and>
   trace (snd (NodeStageVolume nodeA reqMountReadOnly)) =
     [Mount ''/dev/disk/by-id/wwn-0x6000c29'' ''/staging'' ''ext4'' [''noatime'', ''ro'']]"
    by (simp (no_asm_use) only: ex_values ex_quiet if_False append_Nil append_Cons simp_thms) blast
  from a' b' show ?thesis by blast
qed

subsection \<open>Stage of a device that is mounted\<close>



text \<open>
  On the example node, whose kernel lists a mount as read-write unless asked otherwise,
  staging the same volume twice from the start succeeds both times, the second time
  without a change, and leaves one mount at the staging target.
\<close>

lemma stage_twice_example:
  "fst (NodeStageVolume nodeA reqMount) = Inr () \<and>
   NodeStageVolume (snd (NodeStageVolume nodeA reqMount)) reqMount =
     (Inr (), snd (NodeStageVolume nodeA reqMount)) \<and>
   map Path (mounts (snd (NodeStageVolume nodeA reqMount))) = [''/staging'']"
  by (simp add: example_defs node_defs NodeStageVolume_def nodeStageBlockVolume_def Let_def)

subsection \<open>Publish of a block volume\<close>

text \<open>
  C7. A Publish of a block-capability volume with readOnly false that passes the checks
  before the mount table is read (the staging target path is set, the disk is attached
  and resolves to a device, the target file exists or is created): with no mount of the
  device, the device's full path is bind-mounted to the target with no flags, and the
  call succeeds when the bind mount does; with one mount whose path is not the target,
  the call fails with Internal (and succeeds without a command when that path is the
  target); with more than one mount, the call fails with AlreadyExists.
\<close>

theorem publish_block_volume:
  assumes "StagingTargetPath req \<noteq> []"
    and "\<not> IsFileVolumeRequest (VolumeCapability req)"
    and "getDiskID (PublishContext req) = Inr dID"
    and "verifyVolumeAttached h dID = Inr volPath"
    and "getDevice h volPath = Inr dev"
    and "AccessType (VolumeCapability req) = BlockAccess"
    and "\<not> Readonly req"
    and "mkfile h (TargetPath req) = (Inr created, h1)"
    and "getDevMounts h1 dev = Inr devMnts"
  shows "(devMnts = [] \<longrightarrow>
            NodePublishVolume h req =
              (if fails h1 (BindMount (FullPath dev) (TargetPath req) [])
               then Inl (Status Internal) else Inr (),
               snd (run (BindMount (FullPath dev) (TargetPath req) []) h1)) \<and>
            trace (snd (NodePublishVolume h req)) =
              trace h1 @ [BindMount (FullPath dev) (TargetPath req) []]) \<and>
         (\<forall>m. devMnts = [m] \<and> Path m \<noteq> TargetPath req \<longrightarrow>
            NodePublishVolume h req = (Inl (Status Internal), h1)) \<and>
         (\<forall>m. devMnts = [m] \<and> Path m = TargetPath req \<longrightarrow>
            NodePublishVolume h req = (Inr (), h1)) \<and>
         (length devMnts > 1 \<longrightarrow>
            NodePublishVolume h req = (Inl (Status AlreadyExists), h1))"
  unfolding NodePublishVolume_reaches[OF assms(1-5)]
  using assms(6-9)
  by (auto simp: publishBlockVol_def run_def effect_def Let_def)

theorem publish_block_volume_witness:
  "NodePublishVolume nodeA reqBlock =
     (Inr (), snd (run (BindMount ''/dev/disk/by-id/wwn-0x6000c29'' ''/pods/b'' [])
                     (snd (run (OpenFile ''/pods/b'') nodeA)))) \<and>
   trace (snd (NodePublishVolume nodeA reqBlock)) =
     [OpenFile ''/pods/b'', BindMount ''/dev/disk/by-id/wwn-0x6000c29'' ''/pods/b'' []] \<and>
   NodePublishVolume nodeStaged reqBlock =
     (Inl (Status Internal), snd (run (OpenFile ''/pods/b'') nodeStaged)) \<and>
   NodePublishVolume nodeTwoMounts reqBlock =
     (Inl (Status AlreadyExists), snd (run (OpenFile ''/pods/b'') nodeTwoMounts))"
proof -
  note a = publish_block_volume[OF ex_block(1,2) ex_disk(2) ex_attached(1) ex_device(1)
      ex_block(3,4) ex_mkfile(1) ex_devMounts(1)]
  note b = publish_block_volume[OF ex_block(1,2) ex_disk(2) ex_attached(2) ex_device(2)
      ex_block(3,4) ex_mkfile(2) ex_devMounts(2)]
  note c = publish_block_volume[OF ex_block(1,2) ex_disk(2) ex_attached(3) ex_device(3)
      ex_block(3,4) ex_mkfile(3) ex_devMounts(3)]
  from a have a': "NodePublishVolume nodeA reqBlock =
     (Inr (), snd (run (BindMount ''/dev/disk/by-id/wwn-0x6000c29'' ''/pods/b'' [])
                     (snd (run (OpenFile ''/pods/b'') nodeA)))) \<and>
   trace (snd (NodePublishVolume nodeA reqBlock)) =
     [OpenFile ''/pods/b'', BindMount ''/dev/disk/by-id/wwn-0x6000c29'' ''/pods/b'' []]"
    by (simp (no_asm_use) only: ex_values ex_after if_False append_Nil append_Cons simp_thms; blast)
  from b ex_paths(1) have b': "NodePublishVolume nodeStaged reqBlock =
     (Inl (Status Internal), snd (run (OpenFile ''/pods/b'') nodeStaged))"
    by blast
  have "length [stagedMount, podMount] > 1" by simp
  with c have c': "NodePublishVolume nodeTwoMounts reqBlock =
     (Inl (Status AlreadyExists), snd (run (OpenFile ''/pods/b'') nodeTwoMounts))"
    by blast
  from a' b' c' show ?thesis by blast
qed

subsection \<open>Publish of a read-only block volume\<close>




subsection \<open>The target file of a rejected read-only block volume\<close>

text \<open>
  C10. For a Publish of a block-capability volume with readOnly true that reaches
  \<open>publishBlockVol\<close>, when nothing is at the target path and the file can be created:
  the call fails with InvalidArgument, the only command issued is the creation of the
  target file, and the file is there after the call.
\<close>

theorem block_readonly_creates_target:
  assumes "Readonly req" and "AccessType (VolumeCapability req) = BlockAccess"
    and "StagingTargetPath req \<noteq> []"
    and "\<not> IsFileVolumeRequest (VolumeCapability req)"
    and "getDiskID (PublishContext req) = Inr dID"
    and "verifyVolumeAttached h dID = Inr volPath"
    and "getDevice h volPath = Inr dev"
    and "stat h (TargetPath req) = NotExist"
    and "\<not> fails h (OpenFile (TargetPath req))"
  shows "fst (NodePublishVolume h req) = Inl (Status InvalidArgument) \<and>
         stat (snd (NodePublishVolume h req)) (TargetPath req) = StatOK Regular \<and>
         trace (snd (NodePublishVolume h req)) = trace h @ [OpenFile (TargetPath req)]"
  unfolding NodePublishVolume_reaches[OF assms(3-7)]
  using assms(1,2,8,9)
  by (simp add: publishBlockVol_ro mkfile_def run_def effect_def Let_def)

theorem block_readonly_creates_target_witness:
  "fst (NodePublishVolume nodeA reqBlockReadOnly) = Inl (Status InvalidArgument) \<and>
   stat (snd (NodePublishVolume nodeA reqBlockReadOnly)) ''/pods/b'' = StatOK Regular \<and>
   trace (snd (NodePublishVolume nodeA reqBlockReadOnly)) = [OpenFile ''/pods/b'']"
proof -
  have h8: "stat nodeA (TargetPath reqBlockReadOnly) = NotExist"
    by (simp add: example_defs)
  have h9: "\<not> fails nodeA (OpenFile (TargetPath reqBlockReadOnly))"
    by (simp add: example_defs)
  from block_readonly_creates_target[OF ex_block(8,7,5,6,9) ex_attached(1)
      ex_device(1) h8 h9]
  show ?thesis
    by (simp (no_asm_use) only: ex_values ex_quiet append_Nil; blast)
qed

subsection \<open>Publish with two mounts of the device\<close>

text \<open>
  C5, as stated, fails: with the device mounted at the staging target and at another
  pod's path, and neither mount at the publish target, a block publish ends with
  AlreadyExists and a mount publish succeeds.
\<close>

theorem publish_two_mounts_counterexample:
  "getDevMounts nodeTwoMounts diskA = Inr [stagedMount, podMount] \<and>
   Path stagedMount \<noteq> TargetPath reqBlock \<and> Path podMount \<noteq> TargetPath reqBlock \<and>
   fst (NodePublishVolume nodeTwoMounts reqBlock) = Inl (Status AlreadyExists) \<and>
   TargetPath reqMount = TargetPath reqBlock \<and>
   fst (NodePublishVolume nodeTwoMounts reqMount) = Inr ()"
  by (simp add: example_defs node_defs NodePublishVolume_def publishBlockVol_def
      publishMountVol_def Let_def)

text \<open>
  C5, amended. For a Publish that finds two mounts of the device, neither at the publish
  target: with a block capability and readOnly false the call fails with AlreadyExists;
  with a mount capability no conflict is reported, the staging target is bind-mounted
  to the target (with \<open>ro\<close> appended to the flags when readOnly is set), and the call
  succeeds when the bind mount does and fails with Internal when it does not.
\<close>

theorem publish_two_mounts:
  assumes "StagingTargetPath req \<noteq> []"
    and "\<not> IsFileVolumeRequest (VolumeCapability req)"
    and "getDiskID (PublishContext req) = Inr dID"
    and "verifyVolumeAttached h dID = Inr volPath"
    and "getDevice h volPath = Inr dev"
    and "getDevMounts h1 dev = Inr [m1, m2]"
    and "Path m1 \<noteq> TargetPath req" and "Path m2 \<noteq> TargetPath req"
  shows "(AccessType (VolumeCapability req) = BlockAccess \<and> \<not> Readonly req \<and>
          mkfile h (TargetPath req) = (Inr created, h1) \<longrightarrow>
            NodePublishVolume h req = (Inl (Status AlreadyExists), h1)) \<and>
         (AccessType (VolumeCapability req) = MountAccess fstype flags \<and>
          mkdir h (TargetPath req) = (Inr created, h1) \<and>
          verifyTargetDir h1 (StagingTargetPath req) True = Inr ok \<longrightarrow>
            NodePublishVolume h req =
              (if fails h1 (BindMount (StagingTargetPath req) (TargetPath req)
                              (if Readonly req then flags @ [''ro''] else flags))
               then Inl (Status Internal) else Inr (),
               snd (run (BindMount (StagingTargetPath req) (TargetPath req)
                              (if Readonly req then flags @ [''ro''] else flags)) h1)))"
  unfolding NodePublishVolume_reaches[OF assms(1-5)]
  using assms(6-8)
  by (auto simp: publishBlockVol_def publishMountVol_def ensureMountVol_def run_def Let_def)

theorem publish_two_mounts_witness:
  "NodePublishVolume nodeTwoMounts reqBlock =
     (Inl (Status AlreadyExists), snd (run (OpenFile ''/pods/b'') nodeTwoMounts)) \<and>
   NodePublishVolume nodeTwoMounts reqMount =
     (Inr (), snd (run (BindMount ''/staging'' ''/pods/b'' [''noatime''])
                     (snd (run (Mkdir ''/pods/b'') nodeTwoMounts))))"
proof -
  have v: "verifyTargetDir (snd (run (Mkdir ''/pods/b'') nodeTwoMounts))
             (StagingTargetPath reqMount) True = Inr True"
    by (simp add: example_defs verifyTargetDir_def run_def effect_def)
  note a = publish_two_mounts[OF ex_block(1,2) ex_disk(2) ex_attached(3) ex_device(3)
      ex_devMounts(3) ex_paths(1,2), where created = True]
  note b = publish_two_mounts[OF ex_mount(1,2) ex_disk(1) ex_attached(3) ex_device(3)
      ex_devMounts(4) ex_paths(3,4),
      where fstype = "''ext4''" and flags = "[''noatime'']" and created = True and ok = True]
  from a ex_block(3,4) ex_mkfile(3)
  have a': "NodePublishVolume nodeTwoMounts reqBlock =
     (Inl (Status AlreadyExists), snd (run (OpenFile ''/pods/b'') nodeTwoMounts))"
    by blast
  from b ex_mount(3,4) ex_mkdir v
  have b': "NodePublishVolume nodeTwoMounts reqMount =
     (Inr (), snd (run (BindMount ''/staging'' ''/pods/b'' [''noatime''])
                     (snd (run (Mkdir ''/pods/b'') nodeTwoMounts))))"
    by (simp (no_asm_use) only: ex_values ex_after ex_mount(4) if_False simp_thms; blast)
  from a' b' show ?thesis by blast
qed

subsection \<open>Nothing mounted at the path\<close>

text \<open>
  C6, as stated, fails: with a leftover file at the publish target and an existing
  staging directory, nothing mounted at either, both calls succeed and leave the host
  as it was; the path is still there.
\<close>

theorem nothing_mounted_counterexample:
  "getDevFromMount nodeLeftover ''/pods/b'' = Inr None \<and>
   TargetPath reqBlock = ''/pods/b'' \<and>
   NodeUnpublishVolume nodeLeftover reqBlock = (Inr (), nodeLeftover) \<and>
   stat nodeLeftover ''/pods/b'' = StatOK Regular \<and>
   getDevFromMount nodeLeftover ''/staging'' = Inr None \<and>
   StagingTargetPath reqBlock = ''/staging'' \<and>
   NodeUnstageVolume nodeLeftover reqBlock = (Inr (), nodeLeftover) \<and>
   stat nodeLeftover ''/staging'' = StatOK Directory"
  by (simp add: example_defs node_defs NodeUnpublishVolume_def NodeUnstageVolume_def
      getDevFromMount_def Let_def)

text \<open>
  C6, amended. When the mount table can be read and nothing is mounted at a path, the
  lookup of the device behind the mount returns nil and no error.
  \<open>isBlockVolumeMounted\<close> then answers that nothing is mounted, and
  \<open>isBlockVolumePublished\<close> removes the path and answers that nothing is published.
  NodeUnstageVolume on that staging target succeeds and changes nothing on the host: it
  removes no path. NodeUnpublishVolume on that target succeeds whenever the target path
  can be examined.
\<close>

theorem nothing_mounted:
  assumes "GetMounts h = Inr mnts" and "\<forall>m\<in>set mnts. Path m \<noteq> tgt"
  shows "getDevFromMount h tgt = Inr None \<and>
         isBlockVolumeMounted h vID tgt = Inr False \<and>
         fst (isBlockVolumePublished h vID tgt) =
           (if fails h (Remove tgt) then Inl (Status Internal) else Inr False) \<and>
         trace (snd (isBlockVolumePublished h vID tgt)) = trace h @ [Remove tgt] \<and>
         (StagingTargetPath req = tgt \<longrightarrow> NodeUnstageVolume h req = (Inr (), h)) \<and>
         (TargetPath req = tgt \<and> stat h tgt \<noteq> StatErr \<longrightarrow>
            fst (NodeUnpublishVolume h req) = Inr ())"
proof -
  have dev: "getDevFromMount h tgt = Inr None"
    using assms by (simp add: getDevFromMount_def devFromMounts_none)
  have notin: "\<not> IsTargetInMounts tgt mnts"
    using assms(2) by (simp add: IsTargetInMounts_iff)
  show ?thesis
    using dev notin assms(1)
    by (auto simp: isBlockVolumeMounted_def isBlockVolumePublished_def rmpath_def run_def
          effect_def Let_def NodeUnstageVolume_def NodeUnpublishVolume_def
        split: stat_result.splits)
qed

theorem nothing_mounted_witness:
  "getDevFromMount nodeLeftover ''/pods/b'' = Inr None \<and>
   isBlockVolumeMounted nodeLeftover ''vol-1'' ''/pods/b'' = Inr False \<and>
   fst (isBlockVolumePublished nodeLeftover ''vol-1'' ''/pods/b'') = Inr False \<and>
   trace (snd (isBlockVolumePublished nodeLeftover ''vol-1'' ''/pods/b'')) = [Remove ''/pods/b''] \<and>
   fst (NodeUnpublishVolume nodeLeftover reqBlock) = Inr () \<and>
   NodeUnstageVolume nodeLeftover reqBlock = (Inr (), nodeLeftover)"
proof -
  have g: "GetMounts nodeLeftover = Inr []"
    by (simp add: example_defs GetMounts_def)
  have n: "\<forall>m\<in>set []. Path m \<noteq> tgt" for tgt :: string
    by simp
  have q: "\<not> fails nodeLeftover call" "trace nodeLeftover = []"
    "stat nodeLeftover ''/pods/b'' \<noteq> StatErr" for call
    by (simp_all add: example_defs)
  note a = nothing_mounted[OF g n, of "''/pods/b''" "''vol-1''" reqBlock]
  note b = nothing_mounted[OF g n, of "''/staging''" "''vol-1''" reqBlock]
  from a b q ex_values(5,8) show ?thesis
    by (simp (no_asm_use) only: ex_values q if_False append_Nil simp_thms; blast)
qed

end
